theory Spec2Isabelle
  imports
    Complex_Main
    "HOL-Library.Char_ord"
    "HOL-Library.List_Lexorder"
    "HOL-Library.Sublist"
    "HOL-Library.Multiset"
begin

section \<open>JavaScript values used by the server actions\<close>

text \<open>
  A \<open>FormData\<close> object is an ordered list of name/value entries; \<open>get\<close> returns the
  value of the first entry with the given name, or \<open>null\<close> (\<open>None\<close>).  Only string
  entries are modelled (no files).  Strings are \<open>char list\<close>.
\<close>

type_synonym form_data = "(string \<times> string) list"

definition formData_get :: "form_data \<Rightarrow> string \<Rightarrow> string option" where
  "formData_get fd k = map_of fd k"

text \<open>Truthiness of a value of type \<open>string | null\<close>: \<open>null\<close> and \<open>''\<close> are falsy.\<close>

fun truthy :: "string option \<Rightarrow> bool" where
  "truthy None = False"
| "truthy (Some s) = (s \<noteq> [])"

text \<open>\<open>v || null\<close> and \<open>v || d\<close> on a value of type \<open>string | null\<close>.\<close>

definition or_null :: "string option \<Rightarrow> string option" where
  "or_null v = (if truthy v then v else None)"

definition or_default :: "string option \<Rightarrow> string \<Rightarrow> string option" where
  "or_default v d = (if truthy v then v else Some d)"

text \<open>
  \<open>ToString\<close> as applied by \<open>parseFloat\<close> and \<open>parseInt\<close> to their argument:
  \<open>null\<close> becomes the text \<open>null\<close>.
\<close>

fun js_to_string :: "string option \<Rightarrow> string" where
  "js_to_string None = ''null''"
| "js_to_string (Some s) = s"

text \<open>
  A JavaScript number is either \<open>NaN\<close> or a numeric value.  The built-in parsers
  \<open>parseFloat\<close> and \<open>parseInt\<close> are not part of the repository; the actions take them
  as the parameters \<open>pf\<close> and \<open>pint\<close>.
\<close>

datatype jsnumber = NaN | Num rat

datatype json = JNull | JString string | JNumber jsnumber

fun json_of_string :: "string option \<Rightarrow> json" where
  "json_of_string None = JNull"
| "json_of_string (Some s) = JString s"

text \<open>An object literal sent to the database: its keys in order, with their values.\<close>

type_synonym payload = "(string \<times> json) list"

section \<open>The database client\<close>

text \<open>
  The error object of the database driver; the actions read only \<open>message\<close>.
\<close>

record pg_error =
  code :: string
  message :: string

text \<open>Rows as the actions receive them.\<close>

record category =
  c_id :: string
  c_name :: string
  c_description :: "string option"
  c_created_at :: "string option"
  c_updated_at :: "string option"

record category_ref =
  r_id :: string
  r_name :: string

record product =
  p_id :: string
  p_name :: string
  p_description :: "string option"
  p_category_id :: "string option"
  p_sku :: string
  p_price :: rat
  p_cost :: "rat option"
  p_stock :: "int option"
  p_min_stock :: "int option"
  p_unit :: "string option"
  p_status :: "string option"
  p_created_at :: "string option"
  p_updated_at :: "string option"

text \<open>A product row with the embedded resource \<open>categories (id, name)\<close>.\<close>

record product_with_category = product +
  p_categories :: "category_ref option"

text \<open>The rows \<open>getProducts\<close> returns: the selected row plus \<open>category_name\<close>.\<close>

record product_listed = product_with_category +
  p_category_name :: "string option"

text \<open>
  The query builder calls the actions make, over a database state of type \<open>'db\<close>.
  A write returns the driver's error (or \<open>null\<close>) and the new state; a read returns
  the error or the rows.  \<open>order_by\<close> is the pair given to \<open>.order(column, {ascending})\<close>,
  \<open>eq_filter\<close> the pair given to \<open>.eq(column, value)\<close>.
\<close>

type_synonym order_by = "string \<times> bool"
type_synonym eq_filter = "string \<times> string"

record 'db client =
  insert_into :: "string \<Rightarrow> payload list \<Rightarrow> 'db \<Rightarrow> pg_error option \<times> 'db"
  update_eq :: "string \<Rightarrow> payload \<Rightarrow> eq_filter \<Rightarrow> 'db \<Rightarrow> pg_error option \<times> 'db"
  delete_eq :: "string \<Rightarrow> eq_filter \<Rightarrow> 'db \<Rightarrow> pg_error option \<times> 'db"
  select_categories :: "order_by \<Rightarrow> 'db \<Rightarrow> pg_error + category list"
  select_category_refs :: "order_by \<Rightarrow> 'db \<Rightarrow> pg_error + category_ref list"
  select_products :: "order_by \<Rightarrow> 'db \<Rightarrow> pg_error + product_with_category list"

section \<open>Server actions\<close>

text \<open>The value every mutation returns: \<open>{success, error}\<close>.\<close>

record action_result =
  success :: bool
  error :: "string option"

subsection \<open>Categories\<close>

definition getCategories :: "'db client \<Rightarrow> 'db \<Rightarrow> category list \<times> string option" where
  "getCategories cl db =
     (case select_categories cl (''name'', True) db of
        Inl e \<Rightarrow> ([], Some (message e))
      | Inr data \<Rightarrow> (data, None))"

definition createCategory_payload :: "form_data \<Rightarrow> payload" where
  "createCategory_payload fd =
     [(''name'', json_of_string (formData_get fd ''name'')),
      (''description'', json_of_string (or_null (formData_get fd ''description'')))]"

definition createCategory :: "'db client \<Rightarrow> form_data \<Rightarrow> 'db \<Rightarrow> action_result \<times> 'db" where
  "createCategory cl fd db =
     (case insert_into cl ''categories'' [createCategory_payload fd] db of
        (Some e, db') \<Rightarrow> (\<lparr>success = False, error = Some (message e)\<rparr>, db')
      | (None, db') \<Rightarrow> (\<lparr>success = True, error = None\<rparr>, db'))"

text \<open>\<open>now\<close> is the value of \<open>new Date().toISOString()\<close> at the call.\<close>

definition updateCategory_payload :: "string \<Rightarrow> form_data \<Rightarrow> payload" where
  "updateCategory_payload now fd =
     [(''name'', json_of_string (formData_get fd ''name'')),
      (''description'', json_of_string (or_null (formData_get fd ''description''))),
      (''updated_at'', JString now)]"

definition updateCategory ::
  "'db client \<Rightarrow> string \<Rightarrow> string \<Rightarrow> form_data \<Rightarrow> 'db \<Rightarrow> action_result \<times> 'db" where
  "updateCategory cl now ident fd db =
     (case update_eq cl ''categories'' (updateCategory_payload now fd) (''id'', ident) db of
        (Some e, db') \<Rightarrow> (\<lparr>success = False, error = Some (message e)\<rparr>, db')
      | (None, db') \<Rightarrow> (\<lparr>success = True, error = None\<rparr>, db'))"

definition deleteCategory :: "'db client \<Rightarrow> string \<Rightarrow> 'db \<Rightarrow> action_result \<times> 'db" where
  "deleteCategory cl ident db =
     (case delete_eq cl ''categories'' (''id'', ident) db of
        (Some e, db') \<Rightarrow> (\<lparr>success = False, error = Some (message e)\<rparr>, db')
      | (None, db') \<Rightarrow> (\<lparr>success = True, error = None\<rparr>, db'))"

subsection \<open>Products\<close>

text \<open>
  \<open>category_name: product.categories?.name || null\<close>: the name of the embedded
  category, \<open>null\<close> when there is none or when the name is empty.
\<close>

definition list_product :: "product_with_category \<Rightarrow> product_listed" where
  "list_product p =
     product_with_category.extend p
       \<lparr>p_category_name = or_null (map_option r_name (p_categories p))\<rparr>"

definition getProducts :: "'db client \<Rightarrow> 'db \<Rightarrow> product_listed list \<times> string option" where
  "getProducts cl db =
     (case select_products cl (''created_at'', False) db of
        Inl e \<Rightarrow> ([], Some (message e))
      | Inr data \<Rightarrow> (map list_product data, None))"

definition getCategoriesForSelect ::
  "'db client \<Rightarrow> 'db \<Rightarrow> category_ref list \<times> string option" where
  "getCategoriesForSelect cl db =
     (case select_category_refs cl (''name'', True) db of
        Inl e \<Rightarrow> ([], Some (message e))
      | Inr data \<Rightarrow> (data, None))"

text \<open>
  The object literal \<open>product\<close> of \<open>createProduct\<close> and \<open>updateProduct\<close> (the two
  functions build it identically).
\<close>

definition product_payload ::
  "(string \<Rightarrow> jsnumber) \<Rightarrow> (string \<Rightarrow> jsnumber) \<Rightarrow> form_data \<Rightarrow> payload" where
  "product_payload pf pint fd =
     [(''name'', json_of_string (formData_get fd ''name'')),
      (''description'', json_of_string (formData_get fd ''description'')),
      (''category'', json_of_string (formData_get fd ''category'')),
      (''sku'', json_of_string (formData_get fd ''sku'')),
      (''price'', JNumber (pf (js_to_string (formData_get fd ''price'')))),
      (''cost'', if truthy (formData_get fd ''cost'')
                 then JNumber (pf (js_to_string (formData_get fd ''cost''))) else JNull),
      (''stock'', JNumber (pint (js_to_string (formData_get fd ''stock'')))),
      (''min_stock'', JNumber (pint (js_to_string (formData_get fd ''min_stock'')))),
      (''unit'', json_of_string (or_default (formData_get fd ''unit'') ''unit'')),
      (''status'', json_of_string (formData_get fd ''status''))]"

definition createProduct ::
  "'db client \<Rightarrow> (string \<Rightarrow> jsnumber) \<Rightarrow> (string \<Rightarrow> jsnumber) \<Rightarrow> form_data \<Rightarrow> 'db
     \<Rightarrow> action_result \<times> 'db" where
  "createProduct cl pf pint fd db =
     (case insert_into cl ''products'' [product_payload pf pint fd] db of
        (Some e, db') \<Rightarrow> (\<lparr>success = False, error = Some (message e)\<rparr>, db')
      | (None, db') \<Rightarrow> (\<lparr>success = True, error = None\<rparr>, db'))"

definition updateProduct ::
  "'db client \<Rightarrow> (string \<Rightarrow> jsnumber) \<Rightarrow> (string \<Rightarrow> jsnumber) \<Rightarrow> string \<Rightarrow> form_data \<Rightarrow> 'db
     \<Rightarrow> action_result \<times> 'db" where
  "updateProduct cl pf pint ident fd db =
     (case update_eq cl ''products'' (product_payload pf pint fd) (''id'', ident) db of
        (Some e, db') \<Rightarrow> (\<lparr>success = False, error = Some (message e)\<rparr>, db')
      | (None, db') \<Rightarrow> (\<lparr>success = True, error = None\<rparr>, db'))"

definition deleteProduct :: "'db client \<Rightarrow> string \<Rightarrow> 'db \<Rightarrow> action_result \<times> 'db" where
  "deleteProduct cl ident db =
     (case delete_eq cl ''products'' (''id'', ident) db of
        (Some e, db') \<Rightarrow> (\<lparr>success = False, error = Some (message e)\<rparr>, db')
      | (None, db') \<Rightarrow> (\<lparr>success = True, error = None\<rparr>, db'))"

subsection \<open>Orders\<close>

text \<open>
  Modelled from the spec: the create action of orders, which is not among the source
  files.  The spec gives every entity a \<open>create(input)\<close> that returns a success flag
  and an optional error string, the driver's message verbatim, and leaves the totals
  of an order to the caller.  So \<open>createOrder\<close> inserts the caller's column values as
  one row of \<open>orders\<close> and answers as the other mutations do.
\<close>

definition createOrder :: "'db client \<Rightarrow> payload \<Rightarrow> 'db \<Rightarrow> action_result \<times> 'db" where
  "createOrder cl input db =
     (case insert_into cl ''orders'' [input] db of
        (Some e, db') \<Rightarrow> (\<lparr>success = False, error = Some (message e)\<rparr>, db')
      | (None, db') \<Rightarrow> (\<lparr>success = True, error = None\<rparr>, db'))"

section \<open>The categories page\<close>

datatype toast = Toast_error string | Toast_success string

text \<open>
  The state of \<open>CategoriesPage\<close>: its seven \<open>useState\<close> cells, and the toasts
  raised so far, oldest first.
\<close>

record page_state =
  categories :: "category list"
  filteredCategories :: "category list"
  searchTerm :: string
  isLoading :: bool
  isDialogOpen :: bool
  currentCategory :: "category option"
  isDeleting :: "string option"
  toasts :: "toast list"

definition initial_page :: page_state where
  "initial_page =
     \<lparr>categories = [], filteredCategories = [], searchTerm = [], isLoading = True,
      isDialogOpen = False, currentCategory = None, isDeleting = None, toasts = []\<rparr>"

text \<open>
  \<open>String.prototype.includes\<close>.  A string holds the bytes of the UTF-8 encoding of
  its text; on well-formed text, one text is a substring of another exactly when its
  bytes are a contiguous part of the other's.
\<close>

definition str_includes :: "string \<Rightarrow> string \<Rightarrow> bool" where
  "str_includes s t = sublist t s"

text \<open>
  The predicate given to \<open>categories.filter\<close> in the search effect.  The built-in
  \<open>String.prototype.toLowerCase\<close> is not part of the repository: it follows the case
  mappings of the Unicode character database, which are neither character by
  character nor length preserving.  The page takes it as the parameter \<open>lower\<close>.
\<close>

definition search_match :: "(string \<Rightarrow> string) \<Rightarrow> string \<Rightarrow> category \<Rightarrow> bool" where
  "search_match lower needle c =
     (str_includes (lower (c_name c)) (lower needle) \<or>
      (truthy (c_description c) \<and>
       (case c_description c of
          None \<Rightarrow> False
        | Some d \<Rightarrow> str_includes (lower d) (lower needle))))"

text \<open>The effect that runs when \<open>searchTerm\<close> or \<open>categories\<close> has changed.\<close>

definition search_effect :: "(string \<Rightarrow> string) \<Rightarrow> page_state \<Rightarrow> page_state" where
  "search_effect lower st =
     (if truthy (Some (searchTerm st))
      then st\<lparr>filteredCategories :=
                filter (search_match lower (searchTerm st)) (categories st)\<rparr>
      else st\<lparr>filteredCategories := categories st\<rparr>)"

text \<open>
  \<open>fetchCategories\<close> in two steps: up to the \<open>await\<close>, and from the settlement of
  \<open>getCategories\<close> on, whose result is the argument.  \<open>if (error) throw\<close> tests the
  truthiness of the error string; the \<open>catch\<close> raises a toast, the \<open>finally\<close> clears
  \<open>isLoading\<close>.
\<close>

definition fetchCategories_begin :: "page_state \<Rightarrow> page_state" where
  "fetchCategories_begin st = st\<lparr>isLoading := True\<rparr>"

definition fetchCategories_settle ::
  "category list \<times> string option \<Rightarrow> page_state \<Rightarrow> page_state" where
  "fetchCategories_settle res st =
     (case res of (cats, err) \<Rightarrow>
        if truthy err
        then st\<lparr>toasts := toasts st @ [Toast_error ''Failed to load categories''],
                isLoading := False\<rparr>
        else st\<lparr>categories := cats, filteredCategories := cats, isLoading := False\<rparr>)"

definition fetchCategories :: "category list \<times> string option \<Rightarrow> page_state \<Rightarrow> page_state" where
  "fetchCategories res st = fetchCategories_settle res (fetchCategories_begin st)"

text \<open>
  \<open>handleDelete\<close>, likewise: \<open>confirmed\<close> is the answer to \<open>confirm\<close>.  On success
  \<open>fetchCategories()\<close> is started and not awaited, so the \<open>finally\<close> runs while the
  fetch is in flight.
\<close>

definition handleDelete_begin :: "string \<Rightarrow> page_state \<Rightarrow> page_state" where
  "handleDelete_begin ident st = st\<lparr>isDeleting := Some ident\<rparr>"

definition handleDelete_settle :: "action_result \<Rightarrow> page_state \<Rightarrow> page_state" where
  "handleDelete_settle res st =
     (if truthy (error res)
      then st\<lparr>toasts := toasts st @ [Toast_error ''Failed to delete category''],
              isDeleting := None\<rparr>
      else if success res
      then (fetchCategories_begin
              (st\<lparr>toasts := toasts st @ [Toast_success ''Category deleted successfully'']\<rparr>))
             \<lparr>isDeleting := None\<rparr>
      else st\<lparr>isDeleting := None\<rparr>)"

definition handleDelete :: "bool \<Rightarrow> string \<Rightarrow> action_result \<Rightarrow> page_state \<Rightarrow> page_state" where
  "handleDelete confirmed ident res st =
     (if \<not> confirmed then st else handleDelete_settle res (handleDelete_begin ident st))"

definition handleSaveSuccess :: "page_state \<Rightarrow> page_state" where
  "handleSaveSuccess st =
     (fetchCategories_begin st)\<lparr>isDialogOpen := False, currentCategory := None\<rparr>"

text \<open>The two buttons of the page header and of a row that change the dialog.\<close>

definition add_category_click :: "page_state \<Rightarrow> page_state" where
  "add_category_click st = st\<lparr>currentCategory := None, isDialogOpen := True\<rparr>"

definition edit_click :: "category \<Rightarrow> page_state \<Rightarrow> page_state" where
  "edit_click c st = st\<lparr>currentCategory := Some c, isDialogOpen := True\<rparr>"

text \<open>What the page renders: the table body, and per row the delete button.\<close>

datatype table_body = Loading_row | Empty_row | Rows "category list"

definition table_body :: "page_state \<Rightarrow> table_body" where
  "table_body st =
     (if isLoading st then Loading_row
      else if length (filteredCategories st) = 0 then Empty_row
      else Rows (filteredCategories st))"

definition delete_button_disabled :: "page_state \<Rightarrow> category \<Rightarrow> bool" where
  "delete_button_disabled st c = (isDeleting st = Some (c_id c))"

section \<open>The category dialog\<close>

record dialog_props =
  d_open :: bool
  d_category :: "category option"
  d_isSaving :: bool

text \<open>The props \<open>CategoriesPage\<close> gives to \<open>CategoryDialog\<close>.\<close>

definition page_dialog_props :: "page_state \<Rightarrow> dialog_props" where
  "page_dialog_props st =
     \<lparr>d_open = isDialogOpen st, d_category = currentCategory st, d_isSaving = False\<rparr>"

record category_form =
  f_name :: string
  f_description :: "string option"

text \<open>The effect on \<open>[category, open]\<close> that fills the form.\<close>

definition dialog_reset :: "dialog_props \<Rightarrow> category_form" where
  "dialog_reset props =
     (case d_category props of
        Some c \<Rightarrow>
          \<lparr>f_name = (if c_name c \<noteq> [] then c_name c else []),
           f_description = or_default (c_description c) []\<rparr>
      | None \<Rightarrow> \<lparr>f_name = [], f_description = Some []\<rparr>)"

definition name_onChange :: "string \<Rightarrow> category_form \<Rightarrow> category_form" where
  "name_onChange v f = f\<lparr>f_name := v\<rparr>"

definition description_onChange :: "string \<Rightarrow> category_form \<Rightarrow> category_form" where
  "description_onChange v f = f\<lparr>f_description := or_null (Some v)\<rparr>"

definition save_button_disabled :: "dialog_props \<Rightarrow> bool" where
  "save_button_disabled props = d_isSaving props"

text \<open>
  \<open>handleSubmit\<close> calls \<open>onSave(formData)\<close>; on the categories page \<open>onSave\<close> is
  \<open>handleSaveSuccess\<close>, which takes no argument.
\<close>

definition dialog_handleSubmit :: "category_form \<Rightarrow> page_state \<Rightarrow> page_state" where
  "dialog_handleSubmit f st = handleSaveSuccess st"

section \<open>The product dialog\<close>

record product_dialog_state =
  loading :: bool
  pd_error :: string
  pd_open :: bool

text \<open>The \<open>name\<close> attributes of the form controls, in document order.\<close>

definition product_form_fields :: "string list" where
  "product_form_fields =
     [''name'', ''description'', ''category_id'', ''sku'', ''unit'', ''price'', ''cost'',
      ''stock'', ''min_stock'', ''status'']"

definition product_handleSubmit_begin :: "product_dialog_state \<Rightarrow> product_dialog_state" where
  "product_handleSubmit_begin st = st\<lparr>loading := True, pd_error := []\<rparr>"

text \<open>
  \<open>handleSubmit\<close> from the settlement of the action on.  On success the dialog is
  closed and \<open>e.currentTarget.reset()\<close> is called; after the \<open>await\<close> the event's
  \<open>currentTarget\<close> is null, so the call throws and the \<open>catch\<close> sets the error text.
  The \<open>finally\<close> clears \<open>loading\<close>.
\<close>

definition product_handleSubmit_settle ::
  "action_result \<Rightarrow> product_dialog_state \<Rightarrow> product_dialog_state" where
  "product_handleSubmit_settle res st =
     (if success res
      then st\<lparr>pd_open := False, pd_error := ''An unexpected error occurred'',
              loading := False\<rparr>
      else st\<lparr>pd_error := (case or_default (error res) ''An error occurred'' of
                               Some m \<Rightarrow> m | None \<Rightarrow> []),
              loading := False\<rparr>)"

definition submit_button_disabled :: "product_dialog_state \<Rightarrow> bool" where
  "submit_button_disabled st = loading st"

section \<open>The database schema\<close>

text \<open>
  The tables of the schema script that declares \<open>categories\<close>, with the columns in
  the order of their declaration.  \<open>UUID\<close>, \<open>TEXT\<close> and \<open>TIMESTAMPTZ\<close> values are
  strings (timestamps compare as strings), \<open>DECIMAL(10, 2)\<close> values are rationals,
  \<open>INTEGER\<close> values are integers; a column without \<open>NOT NULL\<close> holds an option.
  The syntax of identifiers and timestamps is not checked.
\<close>

record customer =
  cu_id :: string
  cu_name :: string
  cu_email :: "string option"
  cu_phone :: "string option"
  cu_address :: "string option"
  cu_city :: "string option"
  cu_state :: "string option"
  cu_zip_code :: "string option"
  cu_notes :: "string option"
  cu_status :: "string option"
  cu_created_at :: "string option"
  cu_updated_at :: "string option"

record order_row =
  o_id :: string
  o_order_number :: string
  o_customer_id :: "string option"
  o_total_amount :: rat
  o_discount :: "rat option"
  o_tax :: "rat option"
  o_status :: "string option"
  o_payment_status :: "string option"
  o_payment_method :: "string option"
  o_notes :: "string option"
  o_created_at :: "string option"
  o_updated_at :: "string option"

record order_item =
  i_id :: string
  i_order_id :: string
  i_product_id :: "string option"
  i_product_name :: string
  i_quantity :: int
  i_unit_price :: rat
  i_subtotal :: rat
  i_created_at :: "string option"

record db =
  db_customers :: "customer list"
  db_categories :: "category list"
  db_products :: "product list"
  db_orders :: "order_row list"
  db_order_items :: "order_item list"

text \<open>
  What a statement takes from outside the tables: the value of \<open>NOW()\<close>, and the
  value of \<open>gen_random_uuid()\<close> for the \<open>i\<close>-th row of the statement.
\<close>

record call_env =
  env_now :: string
  env_uuid :: "nat \<Rightarrow> string"

subsection \<open>Errors\<close>

definition unique_violation :: "string \<Rightarrow> pg_error" where
  "unique_violation c =
     \<lparr>code = ''23505'', message = ''duplicate key value violates unique constraint '' @ c\<rparr>"

definition not_null_violation :: "string \<Rightarrow> pg_error" where
  "not_null_violation c =
     \<lparr>code = ''23502'', message = ''null value violates not-null constraint in column '' @ c\<rparr>"

definition check_violation :: "string \<Rightarrow> pg_error" where
  "check_violation c =
     \<lparr>code = ''23514'', message = ''new row violates check constraint '' @ c\<rparr>"

definition foreign_key_violation :: "string \<Rightarrow> pg_error" where
  "foreign_key_violation c =
     \<lparr>code = ''23503'', message = ''violates foreign key constraint '' @ c\<rparr>"

definition undefined_column :: "string \<Rightarrow> pg_error" where
  "undefined_column c = \<lparr>code = ''42703'', message = ''column does not exist: '' @ c\<rparr>"

definition invalid_input :: "string \<Rightarrow> pg_error" where
  "invalid_input c = \<lparr>code = ''22P02'', message = ''invalid input syntax in column '' @ c\<rparr>"

definition numeric_overflow :: "string \<Rightarrow> pg_error" where
  "numeric_overflow c = \<lparr>code = ''22003'', message = ''numeric field overflow in column '' @ c\<rparr>"

text \<open>
  The answer of this model to a request that none of the actions sends and whose
  effect it does not describe.
\<close>

definition not_modelled :: pg_error where
  "not_modelled = \<lparr>code = ''XX000'', message = ''request outside the model''\<rparr>"

definition bind_result :: "'e + 'a \<Rightarrow> ('a \<Rightarrow> 'e + 'b) \<Rightarrow> 'e + 'b" where
  "bind_result r f = (case r of Inl e \<Rightarrow> Inl e | Inr x \<Rightarrow> f x)"

fun sequence :: "('e + 'a) list \<Rightarrow> 'e + 'a list" where
  "sequence [] = Inr []"
| "sequence (r # rs) =
     (case r of
        Inl e \<Rightarrow> Inl e
      | Inr x \<Rightarrow> (case sequence rs of Inl e \<Rightarrow> Inl e | Inr xs \<Rightarrow> Inr (x # xs)))"

subsection \<open>Column values from a JSON payload\<close>

text \<open>
  A JSON value for a text-like column, a \<open>DECIMAL(10, 2)\<close> column and an \<open>INTEGER\<close>
  column.  \<open>NaN\<close> is serialised as \<open>null\<close>.  A decimal is rounded to two places, half
  away from zero.  A value of the other JSON kind is outside the model.
\<close>

fun text_value :: "string \<Rightarrow> json \<Rightarrow> pg_error + string option" where
  "text_value col JNull = Inr None"
| "text_value col (JString s) = Inr (Some s)"
| "text_value col (JNumber n) = Inl not_modelled"

definition decimal_10_2 :: "string \<Rightarrow> rat \<Rightarrow> pg_error + rat" where
  "decimal_10_2 col r =
     (let q = sgn r * of_int \<lfloor>\<bar>r\<bar> * 100 + 1 / 2\<rfloor> / 100
      in if \<bar>q\<bar> < 100000000 then Inr q else Inl (numeric_overflow col))"

fun decimal_value :: "string \<Rightarrow> json \<Rightarrow> pg_error + rat option" where
  "decimal_value col JNull = Inr None"
| "decimal_value col (JNumber NaN) = Inr None"
| "decimal_value col (JNumber (Num r)) = bind_result (decimal_10_2 col r) (\<lambda>q. Inr (Some q))"
| "decimal_value col (JString s) = Inl not_modelled"

fun integer_value :: "string \<Rightarrow> json \<Rightarrow> pg_error + int option" where
  "integer_value col JNull = Inr None"
| "integer_value col (JNumber NaN) = Inr None"
| "integer_value col (JNumber (Num r)) =
     (if r = of_int \<lfloor>r\<rfloor> \<and> - 2147483648 \<le> \<lfloor>r\<rfloor> \<and> \<lfloor>r\<rfloor> \<le> 2147483647
      then Inr (Some \<lfloor>r\<rfloor>) else Inl (invalid_input col))"
| "integer_value col (JString s) = Inl not_modelled"

text \<open>
  The value of a column after a write: the payload's value when the payload has the
  key, otherwise \<open>keep\<close> (the column default on insert, the old value on update).
\<close>

definition column_value ::
  "(string \<Rightarrow> json \<Rightarrow> pg_error + 'a option) \<Rightarrow> payload \<Rightarrow> string \<Rightarrow> 'a option
     \<Rightarrow> pg_error + 'a option" where
  "column_value dec p col keep = (case map_of p col of None \<Rightarrow> Inr keep | Some v \<Rightarrow> dec col v)"

definition unknown_column :: "string list \<Rightarrow> payload \<Rightarrow> pg_error option" where
  "unknown_column cols p =
     (case filter (\<lambda>k. k \<notin> set cols) (map fst p) of
        [] \<Rightarrow> None
      | k # _ \<Rightarrow> Some (undefined_column k))"

definition not_null :: "string \<Rightarrow> 'a option \<Rightarrow> pg_error + 'a" where
  "not_null col v = (case v of None \<Rightarrow> Inl (not_null_violation col) | Some x \<Rightarrow> Inr x)"

definition check :: "string \<Rightarrow> bool \<Rightarrow> 'a \<Rightarrow> pg_error + 'a" where
  "check c ok x = (if ok then Inr x else Inl (check_violation c))"

subsection \<open>Table \<open>categories\<close>\<close>

text \<open>A row being built: every column may still be null.\<close>

record category_draft =
  cd_id :: "string option"
  cd_name :: "string option"
  cd_description :: "string option"
  cd_created_at :: "string option"
  cd_updated_at :: "string option"

definition category_columns :: "string list" where
  "category_columns = [''id'', ''name'', ''description'', ''created_at'', ''updated_at'']"

definition category_defaults :: "call_env \<Rightarrow> nat \<Rightarrow> category_draft" where
  "category_defaults env i =
     \<lparr>cd_id = Some (env_uuid env i), cd_name = None, cd_description = None,
      cd_created_at = Some (env_now env), cd_updated_at = Some (env_now env)\<rparr>"

definition draft_of_category :: "category \<Rightarrow> category_draft" where
  "draft_of_category r =
     \<lparr>cd_id = Some (c_id r), cd_name = Some (c_name r), cd_description = c_description r,
      cd_created_at = c_created_at r, cd_updated_at = c_updated_at r\<rparr>"

definition apply_category_payload :: "payload \<Rightarrow> category_draft \<Rightarrow> pg_error + category_draft" where
  "apply_category_payload p d =
     (case unknown_column category_columns p of
        Some e \<Rightarrow> Inl e
      | None \<Rightarrow>
          bind_result (column_value text_value p ''id'' (cd_id d)) (\<lambda>i.
          bind_result (column_value text_value p ''name'' (cd_name d)) (\<lambda>n.
          bind_result (column_value text_value p ''description'' (cd_description d)) (\<lambda>ds.
          bind_result (column_value text_value p ''created_at'' (cd_created_at d)) (\<lambda>c.
          bind_result (column_value text_value p ''updated_at'' (cd_updated_at d)) (\<lambda>u.
          Inr \<lparr>cd_id = i, cd_name = n, cd_description = ds, cd_created_at = c,
               cd_updated_at = u\<rparr>))))))"

text \<open>\<open>id UUID PRIMARY KEY\<close>, \<open>name TEXT NOT NULL\<close>.\<close>

definition category_of_draft :: "category_draft \<Rightarrow> pg_error + category" where
  "category_of_draft d =
     bind_result (not_null ''id'' (cd_id d)) (\<lambda>i.
     bind_result (not_null ''name'' (cd_name d)) (\<lambda>n.
     Inr \<lparr>c_id = i, c_name = n, c_description = cd_description d,
          c_created_at = cd_created_at d, c_updated_at = cd_updated_at d\<rparr>))"

text \<open>The trigger \<open>update_categories_updated_at\<close>: \<open>NEW.updated_at = NOW()\<close>.\<close>

definition category_before_update :: "call_env \<Rightarrow> category_draft \<Rightarrow> category_draft" where
  "category_before_update env d = d\<lparr>cd_updated_at := Some (env_now env)\<rparr>"

text \<open>Inserting one row: primary key, then \<open>name TEXT NOT NULL UNIQUE\<close>.\<close>

definition insert_category :: "call_env \<Rightarrow> nat \<Rightarrow> payload \<Rightarrow> db \<Rightarrow> pg_error + db" where
  "insert_category env i p db =
     bind_result (apply_category_payload p (category_defaults env i)) (\<lambda>d.
     bind_result (category_of_draft d) (\<lambda>r.
       if c_id r \<in> c_id ` set (db_categories db)
       then Inl (unique_violation ''categories_pkey'')
       else if c_name r \<in> c_name ` set (db_categories db)
       then Inl (unique_violation ''categories_name_key'')
       else Inr (db\<lparr>db_categories := db_categories db @ [r]\<rparr>)))"

fun insert_categories :: "call_env \<Rightarrow> nat \<Rightarrow> payload list \<Rightarrow> db \<Rightarrow> pg_error + db" where
  "insert_categories env i [] db = Inr db"
| "insert_categories env i (p # ps) db =
     bind_result (insert_category env i p db) (insert_categories env (Suc i) ps)"

text \<open>
  Updating the rows whose \<open>id\<close> is \<open>ident\<close>: the payload's columns must exist;
  in each such row they are set, the trigger runs, and the constraints are checked on
  the resulting table.  A changed
  \<open>id\<close> that products still reference is refused (the foreign key has no
  \<open>ON UPDATE\<close> action).
\<close>

definition updated_category :: "call_env \<Rightarrow> payload \<Rightarrow> category \<Rightarrow> pg_error + category" where
  "updated_category env p r =
     bind_result (apply_category_payload p (draft_of_category r)) (\<lambda>d.
     category_of_draft (category_before_update env d))"

definition update_categories :: "call_env \<Rightarrow> payload \<Rightarrow> string \<Rightarrow> db \<Rightarrow> pg_error + db" where
  "update_categories env p ident db =
     (case unknown_column category_columns p of
        Some e \<Rightarrow> Inl e
      | None \<Rightarrow>
      if ident \<notin> c_id ` set (db_categories db) then Inr db
      else
        bind_result
          (sequence (map (\<lambda>r. if c_id r = ident then updated_category env p r else Inr r)
                       (db_categories db))) (\<lambda>rows.
        if \<not> distinct (map c_id rows) then Inl (unique_violation ''categories_pkey'')
        else if \<not> distinct (map c_name rows)
        then Inl (unique_violation ''categories_name_key'')
        else if ident \<notin> c_id ` set rows \<and> Some ident \<in> p_category_id ` set (db_products db)
        then Inl (foreign_key_violation ''products_category_id_fkey'')
        else Inr (db\<lparr>db_categories := rows\<rparr>)))"

text \<open>
  The trigger \<open>update_products_updated_at\<close>, and deleting the category \<open>ident\<close>:
  \<open>category_id UUID REFERENCES categories(id) ON DELETE SET NULL\<close> updates the
  referencing products, and that update fires the products trigger.
\<close>

definition product_before_update :: "call_env \<Rightarrow> product \<Rightarrow> product" where
  "product_before_update env r = r\<lparr>p_updated_at := Some (env_now env)\<rparr>"

definition delete_categories :: "call_env \<Rightarrow> string \<Rightarrow> db \<Rightarrow> pg_error + db" where
  "delete_categories env ident db =
     (if ident \<notin> c_id ` set (db_categories db) then Inr db
      else Inr (db\<lparr>db_categories := filter (\<lambda>r. c_id r \<noteq> ident) (db_categories db),
                   db_products :=
                     map (\<lambda>r. if p_category_id r = Some ident
                              then product_before_update env (r\<lparr>p_category_id := None\<rparr>)
                              else r)
                       (db_products db)\<rparr>))"

subsection \<open>Table \<open>products\<close>\<close>

record product_draft =
  pd_id :: "string option"
  pd_name :: "string option"
  pd_description :: "string option"
  pd_category_id :: "string option"
  pd_sku :: "string option"
  pd_price :: "rat option"
  pd_cost :: "rat option"
  pd_stock :: "int option"
  pd_min_stock :: "int option"
  pd_unit :: "string option"
  pd_status :: "string option"
  pd_created_at :: "string option"
  pd_updated_at :: "string option"

definition product_columns :: "string list" where
  "product_columns =
     [''id'', ''name'', ''description'', ''category_id'', ''sku'', ''price'', ''cost'', ''stock'',
      ''min_stock'', ''unit'', ''status'', ''created_at'', ''updated_at'']"

definition product_defaults :: "call_env \<Rightarrow> nat \<Rightarrow> product_draft" where
  "product_defaults env i =
     \<lparr>pd_id = Some (env_uuid env i), pd_name = None, pd_description = None,
      pd_category_id = None, pd_sku = None, pd_price = None, pd_cost = None,
      pd_stock = Some 0, pd_min_stock = Some 10, pd_unit = Some ''unit'',
      pd_status = Some ''active'', pd_created_at = Some (env_now env),
      pd_updated_at = Some (env_now env)\<rparr>"

definition draft_of_product :: "product \<Rightarrow> product_draft" where
  "draft_of_product r =
     \<lparr>pd_id = Some (p_id r), pd_name = Some (p_name r), pd_description = p_description r,
      pd_category_id = p_category_id r, pd_sku = Some (p_sku r), pd_price = Some (p_price r),
      pd_cost = p_cost r, pd_stock = p_stock r, pd_min_stock = p_min_stock r,
      pd_unit = p_unit r, pd_status = p_status r, pd_created_at = p_created_at r,
      pd_updated_at = p_updated_at r\<rparr>"

definition apply_product_payload :: "payload \<Rightarrow> product_draft \<Rightarrow> pg_error + product_draft" where
  "apply_product_payload p d =
     (case unknown_column product_columns p of
        Some e \<Rightarrow> Inl e
      | None \<Rightarrow>
          bind_result (column_value text_value p ''id'' (pd_id d)) (\<lambda>i.
          bind_result (column_value text_value p ''name'' (pd_name d)) (\<lambda>n.
          bind_result (column_value text_value p ''description'' (pd_description d)) (\<lambda>ds.
          bind_result (column_value text_value p ''category_id'' (pd_category_id d)) (\<lambda>cat.
          bind_result (column_value text_value p ''sku'' (pd_sku d)) (\<lambda>sk.
          bind_result (column_value decimal_value p ''price'' (pd_price d)) (\<lambda>pr.
          bind_result (column_value decimal_value p ''cost'' (pd_cost d)) (\<lambda>co.
          bind_result (column_value integer_value p ''stock'' (pd_stock d)) (\<lambda>st.
          bind_result (column_value integer_value p ''min_stock'' (pd_min_stock d)) (\<lambda>ms.
          bind_result (column_value text_value p ''unit'' (pd_unit d)) (\<lambda>un.
          bind_result (column_value text_value p ''status'' (pd_status d)) (\<lambda>sta.
          bind_result (column_value text_value p ''created_at'' (pd_created_at d)) (\<lambda>c.
          bind_result (column_value text_value p ''updated_at'' (pd_updated_at d)) (\<lambda>u.
          Inr \<lparr>pd_id = i, pd_name = n, pd_description = ds, pd_category_id = cat,
               pd_sku = sk, pd_price = pr, pd_cost = co, pd_stock = st, pd_min_stock = ms,
               pd_unit = un, pd_status = sta, pd_created_at = c,
               pd_updated_at = u\<rparr>))))))))))))))"

text \<open>
  The constraints of one products row, in the order in which the database tests them:
  \<open>NOT NULL\<close> on \<open>id\<close>, \<open>name\<close>, \<open>sku\<close> and \<open>price\<close>, then the \<open>CHECK\<close>s on \<open>cost\<close>,
  \<open>price\<close>, \<open>status\<close> and \<open>stock\<close> in the alphabetical order of their names (a null
  passes); when the row is stored, the primary key, then \<open>sku TEXT UNIQUE\<close>, and last
  the reference to \<open>categories(id)\<close>.
\<close>

definition product_statuses :: "string list" where
  "product_statuses = [''active'', ''inactive'', ''discontinued'']"

definition nonneg :: "'a::{zero, ord} option \<Rightarrow> bool" where
  "nonneg v = (case v of None \<Rightarrow> True | Some x \<Rightarrow> 0 \<le> x)"

definition one_of :: "string list \<Rightarrow> string option \<Rightarrow> bool" where
  "one_of allowed v = (case v of None \<Rightarrow> True | Some x \<Rightarrow> x \<in> set allowed)"

definition references :: "string list \<Rightarrow> string option \<Rightarrow> bool" where
  "references ids v = (case v of None \<Rightarrow> True | Some x \<Rightarrow> x \<in> set ids)"

definition product_of_draft :: "product_draft \<Rightarrow> pg_error + product" where
  "product_of_draft d =
     bind_result (not_null ''id'' (pd_id d)) (\<lambda>i.
     bind_result (not_null ''name'' (pd_name d)) (\<lambda>n.
     bind_result (not_null ''sku'' (pd_sku d)) (\<lambda>sk.
     bind_result (not_null ''price'' (pd_price d)) (\<lambda>pr.
     bind_result (check ''products_cost_check'' (nonneg (pd_cost d)) ()) (\<lambda>_.
     bind_result (check ''products_price_check'' (0 \<le> pr) ()) (\<lambda>_.
     bind_result (check ''products_status_check'' (one_of product_statuses (pd_status d)) ())
       (\<lambda>_.
     bind_result (check ''products_stock_check'' (nonneg (pd_stock d)) ()) (\<lambda>_.
     Inr \<lparr>p_id = i, p_name = n, p_description = pd_description d,
          p_category_id = pd_category_id d, p_sku = sk, p_price = pr,
          p_cost = pd_cost d, p_stock = pd_stock d, p_min_stock = pd_min_stock d,
          p_unit = pd_unit d, p_status = pd_status d,
          p_created_at = pd_created_at d, p_updated_at = pd_updated_at d\<rparr>))))))))"

definition add_product :: "product \<Rightarrow> db \<Rightarrow> pg_error + db" where
  "add_product r db =
     (if p_id r \<in> p_id ` set (db_products db) then Inl (unique_violation ''products_pkey'')
      else if p_sku r \<in> p_sku ` set (db_products db)
      then Inl (unique_violation ''products_sku_key'')
      else if \<not> references (map c_id (db_categories db)) (p_category_id r)
      then Inl (foreign_key_violation ''products_category_id_fkey'')
      else Inr (db\<lparr>db_products := db_products db @ [r]\<rparr>))"

definition insert_product :: "call_env \<Rightarrow> nat \<Rightarrow> payload \<Rightarrow> db \<Rightarrow> pg_error + db" where
  "insert_product env i p db =
     bind_result (apply_product_payload p (product_defaults env i)) (\<lambda>d.
     bind_result (product_of_draft d) (\<lambda>r. add_product r db))"

fun insert_products :: "call_env \<Rightarrow> nat \<Rightarrow> payload list \<Rightarrow> db \<Rightarrow> pg_error + db" where
  "insert_products env i [] db = Inr db"
| "insert_products env i (p # ps) db =
     bind_result (insert_product env i p db) (insert_products env (Suc i) ps)"

definition updated_product :: "call_env \<Rightarrow> payload \<Rightarrow> product \<Rightarrow> pg_error + product" where
  "updated_product env p r =
     bind_result (apply_product_payload p (draft_of_product r)) (\<lambda>d.
     bind_result (product_of_draft d) (\<lambda>r'. Inr (product_before_update env r')))"

text \<open>
  Updating the rows whose \<open>id\<close> is \<open>ident\<close>: the unique keys are tested on the
  resulting table, then the category reference of the updated rows.  A changed \<open>id\<close>
  that order items still reference is refused.
\<close>

definition update_products :: "call_env \<Rightarrow> payload \<Rightarrow> string \<Rightarrow> db \<Rightarrow> pg_error + db" where
  "update_products env p ident db =
     (case unknown_column product_columns p of
        Some e \<Rightarrow> Inl e
      | None \<Rightarrow>
      if ident \<notin> p_id ` set (db_products db) then Inr db
      else
        bind_result
          (sequence (map (\<lambda>r. if p_id r = ident then updated_product env p r else Inr r)
                       (db_products db))) (\<lambda>rows.
        if \<not> distinct (map p_id rows) then Inl (unique_violation ''products_pkey'')
        else if \<not> distinct (map p_sku rows) then Inl (unique_violation ''products_sku_key'')
        else if \<not> list_all (\<lambda>(old, new).
                   if p_id old = ident
                   then references (map c_id (db_categories db)) (p_category_id new)
                   else True) (zip (db_products db) rows)
        then Inl (foreign_key_violation ''products_category_id_fkey'')
        else if ident \<notin> p_id ` set rows \<and> Some ident \<in> i_product_id ` set (db_order_items db)
        then Inl (foreign_key_violation ''order_items_product_id_fkey'')
        else Inr (db\<lparr>db_products := rows\<rparr>)))"

text \<open>
  Deleting the product \<open>ident\<close>:
  \<open>product_id UUID REFERENCES products(id) ON DELETE SET NULL\<close> in \<open>order_items\<close>,
  a table without an update trigger.
\<close>

definition delete_products :: "string \<Rightarrow> db \<Rightarrow> pg_error + db" where
  "delete_products ident db =
     (if ident \<notin> p_id ` set (db_products db) then Inr db
      else Inr (db\<lparr>db_products := filter (\<lambda>r. p_id r \<noteq> ident) (db_products db),
                   db_order_items :=
                     map (\<lambda>r. if i_product_id r = Some ident then r\<lparr>i_product_id := None\<rparr>
                              else r)
                       (db_order_items db)\<rparr>))"

subsection \<open>Table \<open>orders\<close>\<close>

record order_draft =
  od_id :: "string option"
  od_order_number :: "string option"
  od_customer_id :: "string option"
  od_total_amount :: "rat option"
  od_discount :: "rat option"
  od_tax :: "rat option"
  od_status :: "string option"
  od_payment_status :: "string option"
  od_payment_method :: "string option"
  od_notes :: "string option"
  od_created_at :: "string option"
  od_updated_at :: "string option"

definition order_columns :: "string list" where
  "order_columns =
     [''id'', ''order_number'', ''customer_id'', ''total_amount'', ''discount'', ''tax'',
      ''status'', ''payment_status'', ''payment_method'', ''notes'', ''created_at'',
      ''updated_at'']"

definition order_defaults :: "call_env \<Rightarrow> nat \<Rightarrow> order_draft" where
  "order_defaults env i =
     \<lparr>od_id = Some (env_uuid env i), od_order_number = None, od_customer_id = None,
      od_total_amount = Some 0, od_discount = Some 0, od_tax = Some 0,
      od_status = Some ''pending'', od_payment_status = Some ''unpaid'',
      od_payment_method = None, od_notes = None, od_created_at = Some (env_now env),
      od_updated_at = Some (env_now env)\<rparr>"

definition apply_order_payload :: "payload \<Rightarrow> order_draft \<Rightarrow> pg_error + order_draft" where
  "apply_order_payload p d =
     (case unknown_column order_columns p of
        Some e \<Rightarrow> Inl e
      | None \<Rightarrow>
          bind_result (column_value text_value p ''id'' (od_id d)) (\<lambda>i.
          bind_result (column_value text_value p ''order_number'' (od_order_number d)) (\<lambda>n.
          bind_result (column_value text_value p ''customer_id'' (od_customer_id d)) (\<lambda>cu.
          bind_result (column_value decimal_value p ''total_amount'' (od_total_amount d))
            (\<lambda>total.
          bind_result (column_value decimal_value p ''discount'' (od_discount d)) (\<lambda>disc.
          bind_result (column_value decimal_value p ''tax'' (od_tax d)) (\<lambda>tx.
          bind_result (column_value text_value p ''status'' (od_status d)) (\<lambda>sta.
          bind_result (column_value text_value p ''payment_status'' (od_payment_status d))
            (\<lambda>pay.
          bind_result (column_value text_value p ''payment_method'' (od_payment_method d))
            (\<lambda>meth.
          bind_result (column_value text_value p ''notes'' (od_notes d)) (\<lambda>nt.
          bind_result (column_value text_value p ''created_at'' (od_created_at d)) (\<lambda>c.
          bind_result (column_value text_value p ''updated_at'' (od_updated_at d)) (\<lambda>u.
          Inr \<lparr>od_id = i, od_order_number = n, od_customer_id = cu,
               od_total_amount = total, od_discount = disc, od_tax = tx, od_status = sta,
               od_payment_status = pay, od_payment_method = meth, od_notes = nt,
               od_created_at = c, od_updated_at = u\<rparr>)))))))))))))"

text \<open>
  The constraints of one orders row, in the order in which the database tests them:
  \<open>NOT NULL\<close> on \<open>id\<close>, \<open>order_number\<close> and \<open>total_amount\<close>, then the \<open>CHECK\<close>s on
  \<open>discount\<close>, \<open>payment_status\<close>, \<open>status\<close>, \<open>tax\<close> and \<open>total_amount\<close> in the
  alphabetical order of their names; when the row is stored, the primary key, then
  \<open>order_number TEXT UNIQUE\<close>, and last the reference to \<open>customers(id)\<close>.
\<close>

definition order_statuses :: "string list" where
  "order_statuses = [''pending'', ''processing'', ''completed'', ''cancelled'']"

definition payment_statuses :: "string list" where
  "payment_statuses = [''unpaid'', ''partial'', ''paid'', ''refunded'']"

definition order_of_draft :: "order_draft \<Rightarrow> pg_error + order_row" where
  "order_of_draft d =
     bind_result (not_null ''id'' (od_id d)) (\<lambda>i.
     bind_result (not_null ''order_number'' (od_order_number d)) (\<lambda>n.
     bind_result (not_null ''total_amount'' (od_total_amount d)) (\<lambda>total.
     bind_result (check ''orders_discount_check'' (nonneg (od_discount d)) ()) (\<lambda>_.
     bind_result
       (check ''orders_payment_status_check''
          (one_of payment_statuses (od_payment_status d)) ()) (\<lambda>_.
     bind_result (check ''orders_status_check'' (one_of order_statuses (od_status d)) ())
       (\<lambda>_.
     bind_result (check ''orders_tax_check'' (nonneg (od_tax d)) ()) (\<lambda>_.
     bind_result (check ''orders_total_amount_check'' (0 \<le> total) ()) (\<lambda>_.
     Inr \<lparr>o_id = i, o_order_number = n, o_customer_id = od_customer_id d,
          o_total_amount = total, o_discount = od_discount d, o_tax = od_tax d,
          o_status = od_status d, o_payment_status = od_payment_status d,
          o_payment_method = od_payment_method d, o_notes = od_notes d,
          o_created_at = od_created_at d, o_updated_at = od_updated_at d\<rparr>))))))))"

definition add_order :: "order_row \<Rightarrow> db \<Rightarrow> pg_error + db" where
  "add_order r db =
     (if o_id r \<in> o_id ` set (db_orders db) then Inl (unique_violation ''orders_pkey'')
      else if o_order_number r \<in> o_order_number ` set (db_orders db)
      then Inl (unique_violation ''orders_order_number_key'')
      else if \<not> references (map cu_id (db_customers db)) (o_customer_id r)
      then Inl (foreign_key_violation ''orders_customer_id_fkey'')
      else Inr (db\<lparr>db_orders := db_orders db @ [r]\<rparr>))"

definition insert_order :: "call_env \<Rightarrow> nat \<Rightarrow> payload \<Rightarrow> db \<Rightarrow> pg_error + db" where
  "insert_order env i p db =
     bind_result (apply_order_payload p (order_defaults env i)) (\<lambda>d.
     bind_result (order_of_draft d) (\<lambda>r. add_order r db))"

fun insert_orders :: "call_env \<Rightarrow> nat \<Rightarrow> payload list \<Rightarrow> db \<Rightarrow> pg_error + db" where
  "insert_orders env i [] db = Inr db"
| "insert_orders env i (p # ps) db =
     bind_result (insert_order env i p db) (insert_orders env (Suc i) ps)"

subsection \<open>Reading\<close>

text \<open>
  \<open>ORDER BY\<close> on a \<open>NOT NULL\<close> column and on a nullable one; a null sorts as larger
  than every value, so it comes last ascending and first descending.
\<close>

definition order_rows :: "('r \<Rightarrow> 'k::linorder) \<Rightarrow> bool \<Rightarrow> 'r list \<Rightarrow> 'r list" where
  "order_rows key ascending rows =
     (if ascending then sort_key key rows else rev (sort_key key rows))"

definition order_nullable :: "('r \<Rightarrow> 'k::linorder option) \<Rightarrow> bool \<Rightarrow> 'r list \<Rightarrow> 'r list" where
  "order_nullable key ascending rows =
     (let vals = sort_key (\<lambda>r. the (key r)) (filter (\<lambda>r. key r \<noteq> None) rows);
          nulls = filter (\<lambda>r. key r = None) rows
      in if ascending then vals @ nulls else nulls @ rev vals)"

text \<open>The embedded resource \<open>categories (id, name)\<close> of a product row.\<close>

definition embed_category :: "db \<Rightarrow> product \<Rightarrow> product_with_category" where
  "embed_category db r =
     product.extend r
       \<lparr>p_categories =
          (case p_category_id r of
             None \<Rightarrow> None
           | Some i \<Rightarrow>
               map_option (\<lambda>c. \<lparr>r_id = c_id c, r_name = c_name c\<rparr>)
                 (find (\<lambda>c. c_id c = i) (db_categories db)))\<rparr>"

text \<open>
  The three reads, ordered by a column of the table.  \<open>collate\<close> maps a text to its
  sort key under the collation of the database.
\<close>

definition order_categories ::
  "(string \<Rightarrow> 'k::linorder) \<Rightarrow> order_by \<Rightarrow> category list \<Rightarrow> pg_error + category list" where
  "order_categories collate ord rows =
     (case ord of (col, ascending) \<Rightarrow>
        if col = ''id'' then Inr (order_rows c_id ascending rows)
        else if col = ''name'' then Inr (order_rows (\<lambda>r. collate (c_name r)) ascending rows)
        else if col = ''description''
        then Inr (order_nullable (\<lambda>r. map_option collate (c_description r)) ascending rows)
        else if col = ''created_at'' then Inr (order_nullable c_created_at ascending rows)
        else if col = ''updated_at'' then Inr (order_nullable c_updated_at ascending rows)
        else Inl (undefined_column col))"

definition order_products ::
  "(string \<Rightarrow> 'k::linorder) \<Rightarrow> order_by \<Rightarrow> product list \<Rightarrow> pg_error + product list" where
  "order_products collate ord rows =
     (case ord of (col, ascending) \<Rightarrow>
        if col = ''id'' then Inr (order_rows p_id ascending rows)
        else if col = ''name'' then Inr (order_rows (\<lambda>r. collate (p_name r)) ascending rows)
        else if col = ''description''
        then Inr (order_nullable (\<lambda>r. map_option collate (p_description r)) ascending rows)
        else if col = ''category_id'' then Inr (order_nullable p_category_id ascending rows)
        else if col = ''sku'' then Inr (order_rows (\<lambda>r. collate (p_sku r)) ascending rows)
        else if col = ''price'' then Inr (order_rows p_price ascending rows)
        else if col = ''cost'' then Inr (order_nullable p_cost ascending rows)
        else if col = ''stock'' then Inr (order_nullable p_stock ascending rows)
        else if col = ''min_stock'' then Inr (order_nullable p_min_stock ascending rows)
        else if col = ''unit''
        then Inr (order_nullable (\<lambda>r. map_option collate (p_unit r)) ascending rows)
        else if col = ''status''
        then Inr (order_nullable (\<lambda>r. map_option collate (p_status r)) ascending rows)
        else if col = ''created_at'' then Inr (order_nullable p_created_at ascending rows)
        else if col = ''updated_at'' then Inr (order_nullable p_updated_at ascending rows)
        else Inl (undefined_column col))"

subsection \<open>The client over the schema\<close>

definition run :: "(db \<Rightarrow> pg_error + db) \<Rightarrow> db \<Rightarrow> pg_error option \<times> db" where
  "run f db = (case f db of Inl e \<Rightarrow> (Some e, db) | Inr db' \<Rightarrow> (None, db'))"

text \<open>
  The requests of the actions, answered from the tables.  A failed statement leaves
  the tables as they were.  Inserts are described for the tables \<open>categories\<close>,
  \<open>products\<close> and \<open>orders\<close>, updates and deletes for \<open>categories\<close> and \<open>products\<close>
  and for the filter column \<open>id\<close>.
\<close>

definition pg_client :: "(string \<Rightarrow> 'k::linorder) \<Rightarrow> call_env \<Rightarrow> db client" where
  "pg_client collate env =
     \<lparr>insert_into = (\<lambda>tbl ps db.
        if tbl = ''categories'' then run (insert_categories env 0 ps) db
        else if tbl = ''products'' then run (insert_products env 0 ps) db
        else if tbl = ''orders'' then run (insert_orders env 0 ps) db
        else (Some not_modelled, db)),
      update_eq = (\<lambda>tbl p flt db.
        if fst flt \<noteq> ''id'' then (Some not_modelled, db)
        else if tbl = ''categories'' then run (update_categories env p (snd flt)) db
        else if tbl = ''products'' then run (update_products env p (snd flt)) db
        else (Some not_modelled, db)),
      delete_eq = (\<lambda>tbl flt db.
        if fst flt \<noteq> ''id'' then (Some not_modelled, db)
        else if tbl = ''categories'' then run (delete_categories env (snd flt)) db
        else if tbl = ''products'' then run (delete_products (snd flt)) db
        else (Some not_modelled, db)),
      select_categories = (\<lambda>ord db. order_categories collate ord (db_categories db)),
      select_category_refs = (\<lambda>ord db.
        bind_result (order_categories collate ord (db_categories db)) (\<lambda>rows.
        Inr (map (\<lambda>c. \<lparr>r_id = c_id c, r_name = c_name c\<rparr>) rows))),
      select_products = (\<lambda>ord db.
        bind_result (order_products collate ord (db_products db)) (\<lambda>rows.
        Inr (map (embed_category db) rows)))\<rparr>"

subsection \<open>The seed statements\<close>

text \<open>
  One row of \<open>INSERT INTO categories (name, description) VALUES ... ON CONFLICT (name)
  DO NOTHING\<close>: a row whose name is present is skipped.
\<close>

definition insert_seed_category :: "call_env \<Rightarrow> nat \<Rightarrow> string \<times> string \<Rightarrow> db \<Rightarrow> pg_error + db" where
  "insert_seed_category env i v db =
     (if fst v \<in> c_name ` set (db_categories db) then Inr db
      else if env_uuid env i \<in> c_id ` set (db_categories db)
      then Inl (unique_violation ''categories_pkey'')
      else Inr (db\<lparr>db_categories := db_categories db @
                 [\<lparr>c_id = env_uuid env i, c_name = fst v, c_description = Some (snd v),
                   c_created_at = Some (env_now env),
                   c_updated_at = Some (env_now env)\<rparr>]\<rparr>))"

text \<open>
  One row of \<open>INSERT INTO products (name, description, category_id, sku, price, cost,
  stock, min_stock, status) VALUES ... ON CONFLICT (sku) DO UPDATE SET ...\<close>;
  \<open>sp_category\<close> is the name in the subquery that selects the category's \<open>id\<close>.
\<close>

record seed_product =
  sp_name :: string
  sp_description :: string
  sp_category :: string
  sp_sku :: string
  sp_price :: rat
  sp_cost :: rat
  sp_stock :: int
  sp_min_stock :: int
  sp_status :: string

definition category_id_by_name :: "db \<Rightarrow> string \<Rightarrow> string option" where
  "category_id_by_name db n = map_option c_id (find (\<lambda>c. c_name c = n) (db_categories db))"

text \<open>
  \<open>DO UPDATE SET\<close> assigns the eight listed columns from the proposed row
  (\<open>EXCLUDED\<close>); the update fires the products trigger.
\<close>

definition on_conflict_update :: "call_env \<Rightarrow> product \<Rightarrow> product \<Rightarrow> product" where
  "on_conflict_update env excluded r =
     product_before_update env
       (r\<lparr>p_name := p_name excluded, p_description := p_description excluded,
          p_category_id := p_category_id excluded, p_price := p_price excluded,
          p_cost := p_cost excluded, p_stock := p_stock excluded,
          p_min_stock := p_min_stock excluded, p_status := p_status excluded\<rparr>)"

definition upsert_seed_product :: "call_env \<Rightarrow> nat \<Rightarrow> seed_product \<Rightarrow> db \<Rightarrow> pg_error + db" where
  "upsert_seed_product env i v db =
     bind_result (decimal_10_2 ''price'' (sp_price v)) (\<lambda>pr.
     bind_result (decimal_10_2 ''cost'' (sp_cost v)) (\<lambda>co.
     bind_result
       (product_of_draft
          ((product_defaults env i)
             \<lparr>pd_name := Some (sp_name v), pd_description := Some (sp_description v),
              pd_category_id := category_id_by_name db (sp_category v),
              pd_sku := Some (sp_sku v), pd_price := Some pr, pd_cost := Some co,
              pd_stock := Some (sp_stock v), pd_min_stock := Some (sp_min_stock v),
              pd_status := Some (sp_status v)\<rparr>)) (\<lambda>excluded.
     if p_sku excluded \<in> p_sku ` set (db_products db)
     then if \<not> references (map c_id (db_categories db)) (p_category_id excluded)
          then Inl (foreign_key_violation ''products_category_id_fkey'')
          else Inr (db\<lparr>db_products :=
                      map (\<lambda>r. if p_sku r = p_sku excluded
                               then on_conflict_update env excluded r else r)
                        (db_products db)\<rparr>)
     else add_product excluded db)))"

text \<open>
  One row of \<open>INSERT INTO orders (order_number, customer_id, total_amount, discount,
  tax, status, payment_status, payment_method) VALUES ...\<close>; \<open>so_customer_email\<close> is
  the e-mail address in the subquery that selects the customer's \<open>id\<close>.
\<close>

record seed_order =
  so_order_number :: string
  so_customer_email :: string
  so_total_amount :: rat
  so_discount :: rat
  so_tax :: rat
  so_status :: string
  so_payment_status :: string
  so_payment_method :: "string option"

definition customer_id_by_email :: "db \<Rightarrow> string \<Rightarrow> string option" where
  "customer_id_by_email db e =
     map_option cu_id (find (\<lambda>c. cu_email c = Some e) (db_customers db))"

definition insert_seed_order :: "call_env \<Rightarrow> nat \<Rightarrow> seed_order \<Rightarrow> db \<Rightarrow> pg_error + db" where
  "insert_seed_order env i v db =
     bind_result (decimal_10_2 ''total_amount'' (so_total_amount v)) (\<lambda>total.
     bind_result (decimal_10_2 ''discount'' (so_discount v)) (\<lambda>disc.
     bind_result (decimal_10_2 ''tax'' (so_tax v)) (\<lambda>tx.
     bind_result
       (order_of_draft
          ((order_defaults env i)
             \<lparr>od_order_number := Some (so_order_number v),
              od_customer_id := customer_id_by_email db (so_customer_email v),
              od_total_amount := Some total, od_discount := Some disc, od_tax := Some tx,
              od_status := Some (so_status v),
              od_payment_status := Some (so_payment_status v),
              od_payment_method := so_payment_method v\<rparr>)) (\<lambda>r.
     add_order r db))))"

section \<open>Notions used in the statements\<close>

text \<open>
  An action result reports the driver's answer \<open>e\<close>: success with no error exactly
  when there is none, otherwise failure with the driver's message.
\<close>

definition reports :: "action_result \<Rightarrow> pg_error option \<Rightarrow> bool" where
  "reports r e =
     (case e of
        None \<Rightarrow> r = \<lparr>success = True, error = None\<rparr>
      | Some x \<Rightarrow> r = \<lparr>success = False, error = Some (message x)\<rparr>)"

text \<open>
  A list result reports the driver's answer \<open>q\<close>: on failure no rows and the driver's
  message, otherwise no error.
\<close>

definition reports_rows :: "'a list \<times> string option \<Rightarrow> pg_error + 'b \<Rightarrow> bool" where
  "reports_rows r q =
     (case q of
        Inl x \<Rightarrow> r = ([], Some (message x))
      | Inr rows \<Rightarrow> snd r = None)"

text \<open>
  The letters of ASCII in their two cases.  Two characters are the same letter when
  they are equal or are the upper-case and the lower-case form of one letter; two
  texts are equal up to case when they are so character by character.
\<close>

definition upper_letters :: string where
  "upper_letters = ''ABCDEFGHIJKLMNOPQRSTUVWXYZ''"

definition lower_letters :: string where
  "lower_letters = ''abcdefghijklmnopqrstuvwxyz''"

definition case_pairs :: "(char \<times> char) list" where
  "case_pairs = zip upper_letters lower_letters"

definition same_letter :: "char \<Rightarrow> char \<Rightarrow> bool" where
  "same_letter a b = (a = b \<or> (a, b) \<in> set case_pairs \<or> (b, a) \<in> set case_pairs)"

definition ci_equal :: "string \<Rightarrow> string \<Rightarrow> bool" where
  "ci_equal s t = list_all2 same_letter s t"

text \<open>
  \<open>s\<close> contains \<open>t\<close> as a case-insensitive substring: some substring of \<open>s\<close> equals
  \<open>t\<close> up to case.
\<close>

definition ci_contains :: "string \<Rightarrow> string \<Rightarrow> bool" where
  "ci_contains s t = (\<exists>u v w. s = u @ v @ w \<and> ci_equal v t)"

text \<open>The categories a search for \<open>t\<close> is to show.\<close>

definition shown_for :: "string \<Rightarrow> category \<Rightarrow> bool" where
  "shown_for t c =
     (ci_contains (c_name c) t \<or>
      (case c_description c of None \<Rightarrow> False | Some d \<Rightarrow> ci_contains d t))"

text \<open>
  The categories that a search for \<open>t\<close> shows when matching is done on lower-cased
  text: the lower-cased name, or the lower-cased non-empty description, contains the
  lower-cased \<open>t\<close>.
\<close>

definition lowered_match :: "(string \<Rightarrow> string) \<Rightarrow> string \<Rightarrow> category \<Rightarrow> bool" where
  "lowered_match lower t c =
     (sublist (lower t) (lower (c_name c)) \<or>
      (case c_description c of
         None \<Rightarrow> False
       | Some d \<Rightarrow> d \<noteq> [] \<and> sublist (lower t) (lower d)))"

text \<open>
  Text of ASCII characters, and what \<open>toLowerCase\<close> does on it: the letters \<open>A\<close> to
  \<open>Z\<close> are replaced by \<open>a\<close> to \<open>z\<close>, every other character is kept.
\<close>

definition is_ascii :: "string \<Rightarrow> bool" where
  "is_ascii s = list_all (\<lambda>c. of_char c < (128::nat)) s"

definition ascii_lower :: "char \<Rightarrow> char" where
  "ascii_lower c = (case map_of case_pairs c of None \<Rightarrow> c | Some l \<Rightarrow> l)"

definition lowers_ascii :: "(string \<Rightarrow> string) \<Rightarrow> bool" where
  "lowers_ascii lower = (\<forall>s. is_ascii s \<longrightarrow> lower s = map ascii_lower s)"

text \<open>The categories of a page all of whose names and descriptions are ASCII text.\<close>

definition ascii_categories :: "category list \<Rightarrow> bool" where
  "ascii_categories cs =
     list_all (\<lambda>c. is_ascii (c_name c) \<and>
                   (case c_description c of None \<Rightarrow> True | Some d \<Rightarrow> is_ascii d)) cs"

text \<open>
  The values of \<open>toLowerCase\<close> that the examples use.  The first text is the Greek
  capital letters alpha, sigma; its lower-case form ends in the final sigma.  The
  second is the capital sigma alone, whose lower-case form is the small sigma.  ASCII
  text is lower-cased letter by letter.
\<close>

definition toLowerCase_sample :: "string \<Rightarrow> string" where
  "toLowerCase_sample s =
     (if s = [CHR 0xCE, CHR 0x91, CHR 0xCE, CHR 0xA3]
      then [CHR 0xCE, CHR 0xB1, CHR 0xCF, CHR 0x82]
      else if s = [CHR 0xCE, CHR 0xA3] then [CHR 0xCF, CHR 0x83]
      else map ascii_lower s)"

text \<open>
  Timestamps in descending order, a null counting as later than every value (the
  database's order).
\<close>

definition newest_first :: "string option list \<Rightarrow> bool" where
  "newest_first ts =
     sorted_wrt (\<lambda>a b. case a of None \<Rightarrow> True
                        | Some x \<Rightarrow> (case b of None \<Rightarrow> False | Some y \<Rightarrow> y \<le> x)) ts"

section \<open>Results of the actions\<close>

lemma createCategory_reports:
  "reports (fst (createCategory cl fd db))
     (fst (insert_into cl ''categories'' [createCategory_payload fd] db))"
  by (simp add: reports_def createCategory_def split: option.split prod.split)

lemma updateCategory_reports:
  "reports (fst (updateCategory cl now ident fd db))
     (fst (update_eq cl ''categories'' (updateCategory_payload now fd) (''id'', ident) db))"
  by (simp add: reports_def updateCategory_def split: option.split prod.split)

lemma deleteCategory_reports:
  "reports (fst (deleteCategory cl ident db)) (fst (delete_eq cl ''categories'' (''id'', ident) db))"
  by (simp add: reports_def deleteCategory_def split: option.split prod.split)

lemma createProduct_reports:
  "reports (fst (createProduct cl pf pint fd db))
     (fst (insert_into cl ''products'' [product_payload pf pint fd] db))"
  by (simp add: reports_def createProduct_def split: option.split prod.split)

lemma updateProduct_reports:
  "reports (fst (updateProduct cl pf pint ident fd db))
     (fst (update_eq cl ''products'' (product_payload pf pint fd) (''id'', ident) db))"
  by (simp add: reports_def updateProduct_def split: option.split prod.split)

lemma deleteProduct_reports:
  "reports (fst (deleteProduct cl ident db)) (fst (delete_eq cl ''products'' (''id'', ident) db))"
  by (simp add: reports_def deleteProduct_def split: option.split prod.split)

lemma getCategories_reports:
  "reports_rows (getCategories cl db) (select_categories cl (''name'', True) db)"
  by (simp add: reports_rows_def getCategories_def split: sum.split)

lemma getCategoriesForSelect_reports:
  "reports_rows (getCategoriesForSelect cl db) (select_category_refs cl (''name'', True) db)"
  by (simp add: reports_rows_def getCategoriesForSelect_def split: sum.split)

lemma getProducts_reports:
  "reports_rows (getProducts cl db) (select_products cl (''created_at'', False) db)"
  by (simp add: reports_rows_def getProducts_def split: sum.split)

text \<open>
  Claim C2.  Each of the six mutation actions returns \<open>{success: true, error: null}\<close>
  exactly when the database call it makes reports no error, and otherwise
  \<open>{success: false, error: m}\<close> with \<open>m\<close> the driver's message, unmodified; each list
  action returns on failure the empty array with the unmodified message.  This holds
  for every client and every database state.
\<close>

theorem actions_report_driver_error:
  "reports (fst (createCategory cl fd db))
     (fst (insert_into cl ''categories'' [createCategory_payload fd] db)) \<and>
   reports (fst (updateCategory cl now ident fd db))
     (fst (update_eq cl ''categories'' (updateCategory_payload now fd) (''id'', ident) db)) \<and>
   reports (fst (deleteCategory cl ident db))
     (fst (delete_eq cl ''categories'' (''id'', ident) db)) \<and>
   reports (fst (createProduct cl pf pint fd db))
     (fst (insert_into cl ''products'' [product_payload pf pint fd] db)) \<and>
   reports (fst (updateProduct cl pf pint ident fd db))
     (fst (update_eq cl ''products'' (product_payload pf pint fd) (''id'', ident) db)) \<and>
   reports (fst (deleteProduct cl ident db))
     (fst (delete_eq cl ''products'' (''id'', ident) db)) \<and>
   reports_rows (getCategories cl db) (select_categories cl (''name'', True) db) \<and>
   reports_rows (getCategoriesForSelect cl db) (select_category_refs cl (''name'', True) db) \<and>
   reports_rows (getProducts cl db) (select_products cl (''created_at'', False) db)"
  by (intro conjI createCategory_reports updateCategory_reports deleteCategory_reports
      createProduct_reports updateProduct_reports deleteProduct_reports
      getCategories_reports getCategoriesForSelect_reports getProducts_reports)

section \<open>Payloads of the mutations\<close>

lemma createCategory_sends:
  "snd (createCategory cl fd db) = snd (insert_into cl ''categories'' [createCategory_payload fd] db)"
  by (simp add: createCategory_def split: option.split prod.split)

lemma updateCategory_sends:
  "snd (updateCategory cl now ident fd db) =
     snd (update_eq cl ''categories'' (updateCategory_payload now fd) (''id'', ident) db)"
  by (simp add: updateCategory_def split: option.split prod.split)

lemma createProduct_sends:
  "snd (createProduct cl pf pint fd db) =
     snd (insert_into cl ''products'' [product_payload pf pint fd] db)"
  by (simp add: createProduct_def split: option.split prod.split)

lemma updateProduct_sends:
  "snd (updateProduct cl pf pint ident fd db) =
     snd (update_eq cl ''products'' (product_payload pf pint fd) (''id'', ident) db)"
  by (simp add: updateProduct_def split: option.split prod.split)

lemma deleteCategory_sends:
  "snd (deleteCategory cl ident db) = snd (delete_eq cl ''categories'' (''id'', ident) db)"
  by (simp add: deleteCategory_def split: option.split prod.split)

lemma deleteProduct_sends:
  "snd (deleteProduct cl ident db) = snd (delete_eq cl ''products'' (''id'', ident) db)"
  by (simp add: deleteProduct_def split: option.split prod.split)

text \<open>
  Claim C3, as stated: no mutation payload includes \<open>updated_at\<close>.  The payload of
  \<open>updateCategory\<close> for the form \<open>name = Food\<close>, \<open>description = Pet food\<close> has the
  key \<open>updated_at\<close>.
\<close>

theorem updateCategory_sends_updated_at:
  "''updated_at'' \<in> set (map fst (updateCategory_payload ''2024-05-01T10:00:00.000Z''
      [(''name'', ''Food''), (''description'', ''Pet food'')]))"
  by (simp add: updateCategory_payload_def)

text \<open>
  Claim C3, amended.  The payload of \<open>createCategory\<close> has exactly the keys \<open>name\<close> and
  \<open>description\<close>, the payload of \<open>createProduct\<close> and of \<open>updateProduct\<close> exactly the
  ten keys taken from the form, none of them \<open>updated_at\<close>; the payload of
  \<open>updateCategory\<close> has \<open>name\<close>, \<open>description\<close> and also \<open>updated_at\<close>, set by the
  application to the current time.  Every mutation hands its request to the database
  whatever the form holds, without a check of its own: the state it leaves is the one
  the database call leaves.
\<close>

theorem mutation_payload_columns:
  "map fst (createCategory_payload fd) = [''name'', ''description''] \<and>
   map fst (updateCategory_payload now fd) = [''name'', ''description'', ''updated_at''] \<and>
   map_of (updateCategory_payload now fd) ''updated_at'' = Some (JString now) \<and>
   map fst (product_payload pf pint fd) =
     [''name'', ''description'', ''category'', ''sku'', ''price'', ''cost'', ''stock'',
      ''min_stock'', ''unit'', ''status''] \<and>
   snd (createCategory cl fd db) =
     snd (insert_into cl ''categories'' [createCategory_payload fd] db) \<and>
   snd (updateCategory cl now ident fd db) =
     snd (update_eq cl ''categories'' (updateCategory_payload now fd) (''id'', ident) db) \<and>
   snd (deleteCategory cl ident db) = snd (delete_eq cl ''categories'' (''id'', ident) db) \<and>
   snd (createProduct cl pf pint fd db) =
     snd (insert_into cl ''products'' [product_payload pf pint fd] db) \<and>
   snd (updateProduct cl pf pint ident fd db) =
     snd (update_eq cl ''products'' (product_payload pf pint fd) (''id'', ident) db) \<and>
   snd (deleteProduct cl ident db) = snd (delete_eq cl ''products'' (''id'', ident) db)"
  by (intro conjI createCategory_sends updateCategory_sends deleteCategory_sends
      createProduct_sends updateProduct_sends deleteProduct_sends)
     (simp_all add: createCategory_payload_def updateCategory_payload_def product_payload_def)

text \<open>
  The product payload never carries the dialog's category field: it has no key
  \<open>category_id\<close>, and its \<open>category\<close> is read from a form field that the dialog does
  not have.
\<close>

lemma product_payload_no_category_id:
  "map_of (product_payload pf pint fd) ''category_id'' = None"
  by (simp add: product_payload_def)

lemma product_payload_category:
  "map_of (product_payload pf pint fd) ''category'' =
     Some (json_of_string (formData_get fd ''category''))"
  by (simp add: product_payload_def)

lemma dialog_has_no_category_field: "''category'' \<notin> set product_form_fields"
  by (simp add: product_form_fields_def)

lemma product_payload_unknown:
  "unknown_column product_columns (product_payload pf pint fd) =
     Some (undefined_column ''category'')"
  by (simp add: unknown_column_def product_columns_def product_payload_def)

lemma createProduct_pg:
  "createProduct (pg_client collate env) pf pint fd db =
     (\<lparr>success = False, error = Some (message (undefined_column ''category''))\<rparr>, db)"
  by (simp add: createProduct_def pg_client_def run_def bind_result_def insert_product_def
      apply_product_payload_def product_payload_unknown)

lemma updateProduct_pg:
  "updateProduct (pg_client collate env) pf pint ident fd db =
     (\<lparr>success = False, error = Some (message (undefined_column ''category''))\<rparr>, db)"
  by (simp add: updateProduct_def pg_client_def run_def update_products_def
      product_payload_unknown)

text \<open>
  Claim C1 fails on the code.  For a submission of the product dialog in which the
  category \<open>c1\<close> is selected (form field \<open>category_id\<close>), the payload of
  \<open>createProduct\<close> has no key \<open>category_id\<close> and carries \<open>category: null\<close>; over the
  schema the insert is refused for the unknown column and no row is written.
\<close>

theorem createProduct_drops_selected_category:
  "map_of (product_payload pf pint
      [(''name'', ''Dog Food''), (''description'', ''Dry food''), (''category_id'', ''c1''),
       (''sku'', ''FOOD-001''), (''unit'', ''bag''), (''price'', ''89.99''), (''cost'', ''50''),
       (''stock'', ''30''), (''min_stock'', ''5''), (''status'', ''active'')]) ''category_id'' = None \<and>
   map_of (product_payload pf pint
      [(''name'', ''Dog Food''), (''description'', ''Dry food''), (''category_id'', ''c1''),
       (''sku'', ''FOOD-001''), (''unit'', ''bag''), (''price'', ''89.99''), (''cost'', ''50''),
       (''stock'', ''30''), (''min_stock'', ''5''), (''status'', ''active'')]) ''category'' = Some JNull \<and>
   createProduct (pg_client (\<lambda>s. s) \<lparr>env_now = ''2024-06-01'', env_uuid = (\<lambda>i. ''p1'')\<rparr>)
     pf pint
     [(''name'', ''Dog Food''), (''description'', ''Dry food''), (''category_id'', ''c1''),
      (''sku'', ''FOOD-001''), (''unit'', ''bag''), (''price'', ''89.99''), (''cost'', ''50''),
      (''stock'', ''30''), (''min_stock'', ''5''), (''status'', ''active'')]
     \<lparr>db_customers = [],
      db_categories = [\<lparr>c_id = ''c1'', c_name = ''Food'', c_description = None,
                        c_created_at = Some ''2024-01-01'', c_updated_at = Some ''2024-01-01''\<rparr>],
      db_products = [], db_orders = [], db_order_items = []\<rparr>
   = (\<lparr>success = False, error = Some ''column does not exist: category''\<rparr>,
      \<lparr>db_customers = [],
       db_categories = [\<lparr>c_id = ''c1'', c_name = ''Food'', c_description = None,
                         c_created_at = Some ''2024-01-01'', c_updated_at = Some ''2024-01-01''\<rparr>],
       db_products = [], db_orders = [], db_order_items = []\<rparr>)"
  by (simp add: product_payload_no_category_id product_payload_category formData_get_def
      createProduct_pg undefined_column_def)

section \<open>Buttons while a call is in flight\<close>

lemma delete_button_disabled_in_flight:
  "delete_button_disabled (handleDelete_begin (c_id c) st) c"
  by (simp add: delete_button_disabled_def handleDelete_begin_def)

lemma submit_button_disabled_in_flight:
  "submit_button_disabled (product_handleSubmit_begin st)"
  by (simp add: submit_button_disabled_def product_handleSubmit_begin_def)

lemma save_button_never_disabled: "\<not> save_button_disabled (page_dialog_props st)"
  by (simp add: save_button_disabled_def page_dialog_props_def)

text \<open>
  Claim C4 fails on the code.  From any state of the categories page, submit the
  category dialog (the page starts its call and closes the dialog) and open the dialog
  again with \<open>Add Category\<close>: the call is still in flight (\<open>isLoading\<close>), the dialog is
  open, and its Save button is not disabled.
\<close>

theorem category_save_button_enabled_in_flight:
  "isLoading (add_category_click (dialog_handleSubmit f st)) \<and>
   d_open (page_dialog_props (add_category_click (dialog_handleSubmit f st))) \<and>
   \<not> save_button_disabled (page_dialog_props (add_category_click (dialog_handleSubmit f st)))"
  by (simp add: save_button_never_disabled)
     (simp add: add_category_click_def dialog_handleSubmit_def handleSaveSuccess_def
      fetchCategories_begin_def page_dialog_props_def)

section \<open>The search filter\<close>

lemma search_match_lowered: "search_match lower t = lowered_match lower t"
proof
  fix c
  show "search_match lower t c = lowered_match lower t c"
    by (cases "c_description c")
       (simp_all add: search_match_def lowered_match_def str_includes_def)
qed

lemma lowers_ascii_empty: "lowers_ascii lower \<Longrightarrow> lower [] = []"
  by (simp add: lowers_ascii_def is_ascii_def)

lemma search_effect_lowered:
  assumes "lowers_ascii lower"
  shows "filteredCategories (search_effect lower st)
           = filter (lowered_match lower (searchTerm st)) (categories st)"
proof (cases "searchTerm st = []")
  case True
  then show ?thesis
    by (simp add: search_effect_def lowered_match_def lowers_ascii_empty [OF assms])
next
  case False
  then show ?thesis
    by (simp add: search_effect_def search_match_lowered)
qed

text \<open>Lower-casing ASCII text letter by letter identifies exactly the same letters.\<close>

lemma same_value_same_key:
  "distinct (map snd ps) \<Longrightarrow> (a, l) \<in> set ps \<Longrightarrow> (b, l) \<in> set ps \<Longrightarrow> a = b"
  by (induction ps) (auto simp: image_iff)

lemma folded_equal_iff:
  assumes keys: "distinct (map fst ps)" and vals: "distinct (map snd ps)"
    and apart: "set (map fst ps) \<inter> set (map snd ps) = {}"
  shows "(case map_of ps a of None \<Rightarrow> a | Some l \<Rightarrow> l)
           = (case map_of ps b of None \<Rightarrow> b | Some l \<Rightarrow> l)
         \<longleftrightarrow> a = b \<or> (a, b) \<in> set ps \<or> (b, a) \<in> set ps"
proof -
  have in_keys: "x \<in> set (map fst ps)" and in_vals: "y \<in> set (map snd ps)"
    if "(x, y) \<in> set ps" for x y
    using that by force+
  have no_chain: "(y, z) \<notin> set ps" if "(x, y) \<in> set ps" for x y z
    using apart in_keys in_vals that by blast
  show ?thesis
  proof (cases "map_of ps a")
    case None
    then have a: "(a, y) \<notin> set ps" for y
      using keys by (simp add: map_of_eq_None_iff image_iff) force
    show ?thesis
    proof (cases "map_of ps b")
      case Nb: None
      then have "(b, y) \<notin> set ps" for y
        using keys by (simp add: map_of_eq_None_iff image_iff) force
      with a None Nb show ?thesis by simp
    next
      case (Some l)
      then have "(b, l) \<in> set ps" using keys by simp
      with a None Some keys show ?thesis
        by (auto dest: no_chain eq_key_imp_eq_value)
    qed
  next
    case (Some l)
    then have al: "(a, l) \<in> set ps" using keys by simp
    show ?thesis
    proof (cases "map_of ps b")
      case None
      then have "(b, y) \<notin> set ps" for y
        using keys by (simp add: map_of_eq_None_iff image_iff) force
      with al None Some keys show ?thesis
        by (auto dest: no_chain eq_key_imp_eq_value)
    next
      case Sb: (Some m)
      then have bm: "(b, m) \<in> set ps" using keys by simp
      have "l = m \<longleftrightarrow> a = b"
        using al bm Some Sb same_value_same_key [OF vals] by auto
      moreover have "(a, b) \<notin> set ps" "(b, a) \<notin> set ps"
        using al bm no_chain by blast+
      ultimately show ?thesis using Some Sb by simp
    qed
  qed
qed

lemma ascii_lower_equal_iff: "ascii_lower a = ascii_lower b \<longleftrightarrow> same_letter a b"
  unfolding ascii_lower_def same_letter_def
  by (rule folded_equal_iff)
     (simp_all add: case_pairs_def upper_letters_def lower_letters_def)

lemma map_ascii_lower_equal_iff: "map ascii_lower v = map ascii_lower t \<longleftrightarrow> ci_equal v t"
  unfolding ci_equal_def
proof (induction v arbitrary: t)
  case Nil
  then show ?case by auto
next
  case (Cons a v)
  then show ?case by (cases t) (simp_all add: ascii_lower_equal_iff)
qed

lemma map_eq_appendE:
  assumes "map f xs = ys @ zs"
  obtains us vs where "xs = us @ vs" and "map f us = ys" and "map f vs = zs"
  using assms unfolding map_eq_append_conv by blast

lemma sublist_lowered_iff:
  "sublist (map ascii_lower t) (map ascii_lower s) = ci_contains s t"
proof
  assume "sublist (map ascii_lower t) (map ascii_lower s)"
  then obtain ps ss where "map ascii_lower s = ps @ (map ascii_lower t @ ss)"
    unfolding sublist_def by blast
  then obtain u r where s: "s = u @ r" and r: "map ascii_lower r = map ascii_lower t @ ss"
    by (rule map_eq_appendE)
  from r obtain v w where "r = v @ w" and "map ascii_lower v = map ascii_lower t"
    by (rule map_eq_appendE)
  with s show "ci_contains s t"
    unfolding ci_contains_def map_ascii_lower_equal_iff by blast
next
  assume "ci_contains s t"
  then obtain u v w where "s = u @ v @ w" and "map ascii_lower v = map ascii_lower t"
    unfolding ci_contains_def map_ascii_lower_equal_iff by blast
  then have "map ascii_lower s = map ascii_lower u @ map ascii_lower t @ map ascii_lower w"
    by simp
  then show "sublist (map ascii_lower t) (map ascii_lower s)"
    by simp
qed

lemma ci_contains_nothing: "ci_contains s []"
  unfolding ci_contains_def ci_equal_def
  by (rule exI [of _ "[]"], rule exI [of _ "[]"], rule exI [of _ s]) simp

lemma ci_contains_in_nothing: "ci_contains [] t = (t = [])"
  by (auto simp: ci_contains_def ci_equal_def)

lemma lowered_match_shown:
  assumes lower: "lowers_ascii lower" and t: "is_ascii t" and name: "is_ascii (c_name c)"
    and descr: "case c_description c of None \<Rightarrow> True | Some d \<Rightarrow> is_ascii d"
  shows "lowered_match lower t c = shown_for t c"
proof -
  have low: "lower s = map ascii_lower s" if "is_ascii s" for s
    using lower that by (simp add: lowers_ascii_def)
  have name_eq: "sublist (lower t) (lower (c_name c)) = ci_contains (c_name c) t"
    by (simp add: low t name sublist_lowered_iff)
  show ?thesis
  proof (cases "c_description c")
    case None
    then show ?thesis by (simp add: lowered_match_def shown_for_def name_eq)
  next
    case (Some d)
    with descr have "is_ascii d" by simp
    then have d_eq: "sublist (lower t) (lower d) = ci_contains d t"
      by (simp add: low t sublist_lowered_iff)
    show ?thesis
    proof (cases "t = []")
      case True
      then show ?thesis
        by (simp add: lowered_match_def shown_for_def lowers_ascii_empty [OF lower]
            ci_contains_nothing)
    next
      case False
      then have "(d \<noteq> [] \<and> ci_contains d t) = ci_contains d t"
        by (auto simp: ci_contains_in_nothing)
      with Some show ?thesis
        by (simp add: lowered_match_def shown_for_def name_eq d_eq)
    qed
  qed
qed

lemma toLowerCase_sample_lowers_ascii: "lowers_ascii toLowerCase_sample"
  by (auto simp: lowers_ascii_def toLowerCase_sample_def is_ascii_def)

text \<open>
  Claim C7, as stated: the page shows exactly the categories whose name or non-null
  description contains the search term as a case-insensitive substring.  The one
  category is named by the Greek capital letters alpha, sigma and has no description;
  the search term is the capital sigma.  The name contains the term, letter for
  letter, and the page shows no category: lower-casing turns the sigma at the end of
  the name into the final sigma and the sigma of the term into the small sigma.
\<close>

theorem search_misses_final_sigma:
  "shown_for [CHR 0xCE, CHR 0xA3]
     \<lparr>c_id = ''c1'', c_name = [CHR 0xCE, CHR 0x91, CHR 0xCE, CHR 0xA3], c_description = None,
      c_created_at = Some ''2024-01-01'', c_updated_at = Some ''2024-01-01''\<rparr> \<and>
   filteredCategories (search_effect toLowerCase_sample
     \<lparr>categories = [\<lparr>c_id = ''c1'', c_name = [CHR 0xCE, CHR 0x91, CHR 0xCE, CHR 0xA3],
                      c_description = None,
                      c_created_at = Some ''2024-01-01'', c_updated_at = Some ''2024-01-01''\<rparr>],
      filteredCategories = [], searchTerm = [CHR 0xCE, CHR 0xA3], isLoading = False,
      isDialogOpen = False, currentCategory = None, isDeleting = None, toasts = []\<rparr>) = []"
proof
  have "[CHR 0xCE, CHR 0x91, CHR 0xCE, CHR 0xA3] = [CHR 0xCE, CHR 0x91] @ [CHR 0xCE, CHR 0xA3] @ []"
    by simp
  moreover have "ci_equal [CHR 0xCE, CHR 0xA3] [CHR 0xCE, CHR 0xA3]"
    by (simp add: ci_equal_def same_letter_def)
  ultimately have "ci_contains [CHR 0xCE, CHR 0x91, CHR 0xCE, CHR 0xA3] [CHR 0xCE, CHR 0xA3]"
    unfolding ci_contains_def by blast
  then show "shown_for [CHR 0xCE, CHR 0xA3]
     \<lparr>c_id = ''c1'', c_name = [CHR 0xCE, CHR 0x91, CHR 0xCE, CHR 0xA3], c_description = None,
      c_created_at = Some ''2024-01-01'', c_updated_at = Some ''2024-01-01''\<rparr>"
    by (simp add: shown_for_def)
  show "filteredCategories (search_effect toLowerCase_sample
     \<lparr>categories = [\<lparr>c_id = ''c1'', c_name = [CHR 0xCE, CHR 0x91, CHR 0xCE, CHR 0xA3],
                      c_description = None,
                      c_created_at = Some ''2024-01-01'', c_updated_at = Some ''2024-01-01''\<rparr>],
      filteredCategories = [], searchTerm = [CHR 0xCE, CHR 0xA3], isLoading = False,
      isDialogOpen = False, currentCategory = None, isDeleting = None, toasts = []\<rparr>) = []"
    by (simp add: search_effect_def search_match_def str_includes_def toLowerCase_sample_def
        sublist_Cons_right)
qed

text \<open>
  Claim C7, amended.  For every list of categories and every search term, the page
  shows exactly the categories whose lower-cased name, or whose lower-cased non-empty
  description, contains the lower-cased search term as a substring, lower-casing
  being \<open>toLowerCase\<close>.  When the search term, the names and the descriptions are
  ASCII text, these are exactly the categories whose name, or whose non-null
  description, contains the search term as a case-insensitive substring.  When the
  search term is empty, every category is shown.  This holds for every lower-casing
  that replaces the letters \<open>A\<close> to \<open>Z\<close> of ASCII text by \<open>a\<close> to \<open>z\<close>.
\<close>

theorem search_filter_on_lower_cased_text:
  assumes "lowers_ascii lower"
  shows "filteredCategories (search_effect lower st)
           = filter (lowered_match lower (searchTerm st)) (categories st) \<and>
         (is_ascii (searchTerm st) \<and> ascii_categories (categories st) \<longrightarrow>
            filteredCategories (search_effect lower st)
              = filter (shown_for (searchTerm st)) (categories st)) \<and>
         filteredCategories (search_effect lower (st\<lparr>searchTerm := []\<rparr>)) = categories st"
proof (intro conjI impI)
  show lowered: "filteredCategories (search_effect lower st)
           = filter (lowered_match lower (searchTerm st)) (categories st)"
    using assms by (rule search_effect_lowered)
  show "filteredCategories (search_effect lower st)
          = filter (shown_for (searchTerm st)) (categories st)"
    if ascii: "is_ascii (searchTerm st) \<and> ascii_categories (categories st)"
  proof -
    have "lowered_match lower (searchTerm st) c = shown_for (searchTerm st) c"
      if "c \<in> set (categories st)" for c
    proof (rule lowered_match_shown [OF assms])
      show "is_ascii (searchTerm st)" using ascii by simp
      show "is_ascii (c_name c)"
        using ascii that by (simp add: ascii_categories_def list_all_iff)
      show "case c_description c of None \<Rightarrow> True | Some d \<Rightarrow> is_ascii d"
        using ascii that by (simp add: ascii_categories_def list_all_iff)
    qed
    then have "filter (lowered_match lower (searchTerm st)) (categories st)
                 = filter (shown_for (searchTerm st)) (categories st)"
      by (intro filter_cong) simp_all
    with lowered show ?thesis by simp
  qed
  show "filteredCategories (search_effect lower (st\<lparr>searchTerm := []\<rparr>)) = categories st"
    by (simp add: search_effect_def)
qed

theorem search_filter_on_lower_cased_text_witness:
  "is_ascii ''pLa'' \<and>
   ascii_categories
     [\<lparr>c_id = ''c1'', c_name = ''Food'', c_description = None,
       c_created_at = Some ''2024-01-01'', c_updated_at = Some ''2024-01-01''\<rparr>,
      \<lparr>c_id = ''c2'', c_name = ''Dog Toys'', c_description = Some ''For PLAY'',
       c_created_at = Some ''2024-01-02'', c_updated_at = Some ''2024-01-02''\<rparr>] \<and>
   filter (shown_for ''pLa'')
     [\<lparr>c_id = ''c1'', c_name = ''Food'', c_description = None,
       c_created_at = Some ''2024-01-01'', c_updated_at = Some ''2024-01-01''\<rparr>,
      \<lparr>c_id = ''c2'', c_name = ''Dog Toys'', c_description = Some ''For PLAY'',
       c_created_at = Some ''2024-01-02'', c_updated_at = Some ''2024-01-02''\<rparr>]
   = [\<lparr>c_id = ''c2'', c_name = ''Dog Toys'', c_description = Some ''For PLAY'',
       c_created_at = Some ''2024-01-02'', c_updated_at = Some ''2024-01-02''\<rparr>]"
proof -
  let ?food = "\<lparr>c_id = ''c1'', c_name = ''Food'', c_description = None,
       c_created_at = Some ''2024-01-01'', c_updated_at = Some ''2024-01-01''\<rparr>"
  let ?toys = "\<lparr>c_id = ''c2'', c_name = ''Dog Toys'', c_description = Some ''For PLAY'',
       c_created_at = Some ''2024-01-02'', c_updated_at = Some ''2024-01-02''\<rparr>"
  let ?st = "\<lparr>categories = [?food, ?toys], filteredCategories = [], searchTerm = ''pLa'',
       isLoading = False, isDialogOpen = False, currentCategory = None, isDeleting = None,
       toasts = []\<rparr>"
  have needle: "is_ascii ''pLa''"
    by (simp add: is_ascii_def)
  have cats: "ascii_categories [?food, ?toys]"
    by (simp add: ascii_categories_def is_ascii_def)
  have shown: "filteredCategories (search_effect toLowerCase_sample ?st) = [?toys]"
    by (simp add: search_effect_def search_match_def str_includes_def toLowerCase_sample_def
        ascii_lower_def case_pairs_def upper_letters_def lower_letters_def sublist_Cons_right)
  have "is_ascii (searchTerm ?st) \<and> ascii_categories (categories ?st)"
    using needle cats by simp
  with search_filter_on_lower_cased_text [OF toLowerCase_sample_lowers_ascii, of ?st]
  have "filteredCategories (search_effect toLowerCase_sample ?st)
          = filter (shown_for (searchTerm ?st)) (categories ?st)"
    by blast
  then have "filter (shown_for (searchTerm ?st)) (categories ?st) = [?toys]"
    using shown by (rule trans [OF sym])
  then have "filter (shown_for ''pLa'') [?food, ?toys] = [?toys]"
    by (simp only: page_state.select_convs)
  with needle cats show ?thesis
    by (intro conjI)
qed

section \<open>Failed calls on the categories page\<close>

text \<open>
  A failure with a non-empty message keeps the lists and raises a toast, for the
  fetch and for the delete.
\<close>

lemma failed_fetch_keeps_lists:
  "m \<noteq> [] \<Longrightarrow>
   categories (fetchCategories (cats, Some m) st) = categories st \<and>
   filteredCategories (fetchCategories (cats, Some m) st) = filteredCategories st \<and>
   toasts (fetchCategories (cats, Some m) st)
     = toasts st @ [Toast_error ''Failed to load categories'']"
  by (simp add: fetchCategories_def fetchCategories_settle_def fetchCategories_begin_def)

lemma failed_delete_keeps_lists:
  "categories (handleDelete ok ident \<lparr>success = False, error = Some m\<rparr> st) = categories st \<and>
   filteredCategories (handleDelete ok ident \<lparr>success = False, error = Some m\<rparr> st)
     = filteredCategories st"
  by (simp add: handleDelete_def handleDelete_settle_def handleDelete_begin_def)

text \<open>
  Claim C8 fails on the code.  The page shows the category \<open>Food\<close>; the driver fails
  with an empty message, so \<open>getCategories\<close> returns \<open>{categories: [], error: ''}\<close>;
  the empty string is falsy, nothing is thrown, and the page replaces its list with
  the empty result, without a toast.  The search term is empty, so the outcome is the
  same for every lower-casing.
\<close>

theorem failed_fetch_with_empty_message_clears_list:
  "getCategories
     ((pg_client (\<lambda>s. s) \<lparr>env_now = ''2024-06-01'', env_uuid = (\<lambda>i. ''u'')\<rparr>)
        \<lparr>select_categories := (\<lambda>ord db. Inl \<lparr>code = ''502'', message = []\<rparr>)\<rparr>)
     \<lparr>db_customers = [],
      db_categories = [\<lparr>c_id = ''c1'', c_name = ''Food'', c_description = None,
                        c_created_at = Some ''2024-01-01'', c_updated_at = Some ''2024-01-01''\<rparr>],
      db_products = [], db_orders = [], db_order_items = []\<rparr>
     = ([], Some []) \<and>
   categories (search_effect lower (fetchCategories ([], Some [])
     \<lparr>categories = [\<lparr>c_id = ''c1'', c_name = ''Food'', c_description = None,
                      c_created_at = Some ''2024-01-01'', c_updated_at = Some ''2024-01-01''\<rparr>],
      filteredCategories = [\<lparr>c_id = ''c1'', c_name = ''Food'', c_description = None,
                      c_created_at = Some ''2024-01-01'', c_updated_at = Some ''2024-01-01''\<rparr>],
      searchTerm = [], isLoading = False, isDialogOpen = False, currentCategory = None,
      isDeleting = None, toasts = []\<rparr>)) = [] \<and>
   table_body (search_effect lower (fetchCategories ([], Some [])
     \<lparr>categories = [\<lparr>c_id = ''c1'', c_name = ''Food'', c_description = None,
                      c_created_at = Some ''2024-01-01'', c_updated_at = Some ''2024-01-01''\<rparr>],
      filteredCategories = [\<lparr>c_id = ''c1'', c_name = ''Food'', c_description = None,
                      c_created_at = Some ''2024-01-01'', c_updated_at = Some ''2024-01-01''\<rparr>],
      searchTerm = [], isLoading = False, isDialogOpen = False, currentCategory = None,
      isDeleting = None, toasts = []\<rparr>)) = Empty_row \<and>
   toasts (search_effect lower (fetchCategories ([], Some [])
     \<lparr>categories = [\<lparr>c_id = ''c1'', c_name = ''Food'', c_description = None,
                      c_created_at = Some ''2024-01-01'', c_updated_at = Some ''2024-01-01''\<rparr>],
      filteredCategories = [\<lparr>c_id = ''c1'', c_name = ''Food'', c_description = None,
                      c_created_at = Some ''2024-01-01'', c_updated_at = Some ''2024-01-01''\<rparr>],
      searchTerm = [], isLoading = False, isDialogOpen = False, currentCategory = None,
      isDeleting = None, toasts = []\<rparr>)) = []"
  by (simp add: getCategories_def pg_client_def fetchCategories_def fetchCategories_settle_def
      fetchCategories_begin_def search_effect_def table_body_def)


section \<open>The actions over the schema\<close>

subsection \<open>Listings\<close>

lemma getCategories_pg:
  "getCategories (pg_client collate env) db =
     (order_rows (\<lambda>r. collate (c_name r)) True (db_categories db), None)"
  by (simp add: getCategories_def pg_client_def order_categories_def)

lemma getCategoriesForSelect_pg:
  "getCategoriesForSelect (pg_client collate env) db =
     (map (\<lambda>c. \<lparr>r_id = c_id c, r_name = c_name c\<rparr>)
        (order_rows (\<lambda>r. collate (c_name r)) True (db_categories db)), None)"
  by (simp add: getCategoriesForSelect_def pg_client_def order_categories_def bind_result_def)

lemma getProducts_pg:
  "getProducts (pg_client collate env) db =
     (map (\<lambda>r. list_product (embed_category db r))
        (order_nullable p_created_at False (db_products db)), None)"
  by (simp add: getProducts_def pg_client_def order_products_def bind_result_def)

lemma listed_created_at: "p_created_at (list_product (embed_category db r)) = p_created_at r"
  by (simp add: list_product_def embed_category_def product.defs product_with_category.defs)

lemma listed_id: "p_id (list_product (embed_category db r)) = p_id r"
  by (simp add: list_product_def embed_category_def product.defs product_with_category.defs)

lemma sorted_wrt_rev_ge: "sorted (map f xs) \<Longrightarrow> sorted_wrt (\<lambda>a b. f b \<le> f a) (rev xs)"
  by (simp add: sorted_wrt_rev sorted_map)

lemma nulls_sorted:
  "sorted_wrt (\<lambda>a b. case key a of None \<Rightarrow> True | Some x \<Rightarrow> P x (key b))
     (filter (\<lambda>r. key r = None) rows)"
  by (induction rows) simp_all

lemma order_nullable_desc: "newest_first (map key (order_nullable key False rows))"
proof -
  let ?vals = "sort_key (\<lambda>r. the (key r)) (filter (\<lambda>r. key r \<noteq> None) rows)"
  let ?nulls = "filter (\<lambda>r. key r = None) rows"
  let ?R = "\<lambda>a b. case key a of None \<Rightarrow> True
                  | Some x \<Rightarrow> (case key b of None \<Rightarrow> False | Some (y::string) \<Rightarrow> y \<le> x)"
  have keys: "key r \<noteq> None" if "r \<in> set (rev ?vals)" for r
    using that by simp
  have "sorted (map (\<lambda>r. the (key r)) ?vals)"
    by (rule sorted_sort_key)
  then have "sorted_wrt (\<lambda>a b. the (key b) \<le> the (key a)) (rev ?vals)"
    by (rule sorted_wrt_rev_ge)
  then have vals: "sorted_wrt ?R (rev ?vals)"
  proof (rule sorted_wrt_mono_rel [rotated])
    fix a b
    assume "a \<in> set (rev ?vals)" "b \<in> set (rev ?vals)" "the (key b) \<le> the (key a)"
    then show "?R a b"
      using keys [of a] keys [of b] by (cases "key a"; cases "key b") simp_all
  qed
  have nulls: "sorted_wrt ?R ?nulls"
    by (rule nulls_sorted)
  have first: "?R a b" if "a \<in> set ?nulls" for a b
    using that by simp
  have "sorted_wrt ?R (?nulls @ rev ?vals)"
    unfolding sorted_wrt_append using vals nulls first by blast
  moreover have "order_nullable key False rows = ?nulls @ rev ?vals"
    by (simp add: order_nullable_def)
  ultimately show ?thesis
    by (simp only: newest_first_def sorted_wrt_map)
qed

lemma mset_order_nullable: "mset (order_nullable key ascending rows) = mset rows"
  by (simp add: order_nullable_def Let_def)

text \<open>
  Claim C9.  Over the schema, \<open>getCategories\<close> and \<open>getCategoriesForSelect\<close> return
  all categories sorted by name ascending (in the collation of the database), and
  \<open>getProducts\<close> returns all products sorted by \<open>created_at\<close> descending, newest first.
\<close>

theorem listings_ordered:
  "snd (getCategories (pg_client collate env) db) = None \<and>
   mset (fst (getCategories (pg_client collate env) db)) = mset (db_categories db) \<and>
   sorted (map (\<lambda>c. collate (c_name c)) (fst (getCategories (pg_client collate env) db))) \<and>
   snd (getCategoriesForSelect (pg_client collate env) db) = None \<and>
   mset (map r_id (fst (getCategoriesForSelect (pg_client collate env) db)))
     = mset (map c_id (db_categories db)) \<and>
   sorted (map (\<lambda>c. collate (r_name c))
     (fst (getCategoriesForSelect (pg_client collate env) db))) \<and>
   snd (getProducts (pg_client collate env) db) = None \<and>
   mset (map p_id (fst (getProducts (pg_client collate env) db)))
     = mset (map p_id (db_products db)) \<and>
   newest_first (map p_created_at (fst (getProducts (pg_client collate env) db)))"
proof -
  let ?cats = "order_rows (\<lambda>r. collate (c_name r)) True (db_categories db)"
  let ?prods = "order_nullable p_created_at False (db_products db)"
  have cats: "mset ?cats = mset (db_categories db)"
    by (simp add: order_rows_def)
  have sorted: "sorted (map (\<lambda>c. collate (c_name c)) ?cats)"
    by (simp add: order_rows_def)
  have "mset (map c_id ?cats) = mset (map c_id (db_categories db))"
    using cats by (metis mset_map)
  then have refs: "mset (map r_id (map (\<lambda>c. \<lparr>r_id = c_id c, r_name = c_name c\<rparr>) ?cats))
                     = mset (map c_id (db_categories db))"
    by (simp add: comp_def)
  have refs_sorted: "sorted (map (\<lambda>c. collate (r_name c))
                       (map (\<lambda>c. \<lparr>r_id = c_id c, r_name = c_name c\<rparr>) ?cats))"
    using sorted by (simp add: comp_def)
  have "mset (map p_id ?prods) = mset (map p_id (db_products db))"
    using mset_order_nullable [of p_created_at False "db_products db"] by (metis mset_map)
  then have prods: "mset (map p_id (map (\<lambda>r. list_product (embed_category db r)) ?prods))
                      = mset (map p_id (db_products db))"
    by (simp add: comp_def listed_id)
  have "newest_first (map p_created_at ?prods)"
    by (rule order_nullable_desc)
  then have newest: "newest_first (map p_created_at
                       (map (\<lambda>r. list_product (embed_category db r)) ?prods))"
    by (simp add: comp_def listed_created_at)
  show ?thesis
    unfolding getCategories_pg getCategoriesForSelect_pg getProducts_pg fst_conv snd_conv
    using cats sorted refs refs_sorted prods newest by blast
qed

subsection \<open>Deleting a referenced category\<close>

lemma deleteCategory_pg:
  "ident \<in> c_id ` set (db_categories db) \<Longrightarrow>
   deleteCategory (pg_client collate env) ident db =
     (\<lparr>success = True, error = None\<rparr>,
      db\<lparr>db_categories := filter (\<lambda>r. c_id r \<noteq> ident) (db_categories db),
         db_products :=
           map (\<lambda>r. if p_category_id r = Some ident
                    then r\<lparr>p_category_id := None, p_updated_at := Some (env_now env)\<rparr>
                    else r)
             (db_products db)\<rparr>)"
  by (simp add: deleteCategory_def pg_client_def run_def delete_categories_def
      product_before_update_def)

text \<open>
  Claim C5, as stated: after the delete, the products that referenced the category
  differ from before in \<open>category_id\<close> only.  Category \<open>c1\<close> is referenced by one
  product, last updated on 2024-01-01; the delete runs on 2024-06-01.  The product
  left is not the old one with \<open>category_id\<close> null: its \<open>updated_at\<close> has changed too.
\<close>

theorem deleteCategory_touches_updated_at:
  "db_products (snd (deleteCategory
      (pg_client (\<lambda>s. s) \<lparr>env_now = ''2024-06-01'', env_uuid = (\<lambda>i. ''u'')\<rparr>) ''c1''
      \<lparr>db_customers = [],
       db_categories = [\<lparr>c_id = ''c1'', c_name = ''Food'', c_description = None,
                         c_created_at = Some ''2024-01-01'', c_updated_at = Some ''2024-01-01''\<rparr>],
       db_products = [\<lparr>p_id = ''p1'', p_name = ''Dog Food'', p_description = None,
                       p_category_id = Some ''c1'', p_sku = ''FOOD-001'', p_price = 8999 / 100,
                       p_cost = Some 50, p_stock = Some 30, p_min_stock = Some 5,
                       p_unit = Some ''unit'', p_status = Some ''active'',
                       p_created_at = Some ''2024-01-01'', p_updated_at = Some ''2024-01-01''\<rparr>],
       db_orders = [], db_order_items = []\<rparr>))
   \<noteq> [\<lparr>p_id = ''p1'', p_name = ''Dog Food'', p_description = None,
        p_category_id = None, p_sku = ''FOOD-001'', p_price = 8999 / 100,
        p_cost = Some 50, p_stock = Some 30, p_min_stock = Some 5,
        p_unit = Some ''unit'', p_status = Some ''active'',
        p_created_at = Some ''2024-01-01'', p_updated_at = Some ''2024-01-01''\<rparr>]"
  by (simp add: deleteCategory_pg)

text \<open>
  Claim C5, amended.  For every category that is referenced by a product,
  \<open>deleteCategory\<close> succeeds rather than failing, and afterwards every product that
  referenced it has \<open>category_id\<close> null and \<open>updated_at\<close> set to the time of the delete
  by the products trigger, all its other fields and all other products unchanged.
\<close>

theorem deleteCategory_sets_null:
  assumes "c \<in> set (db_categories db)"
    and "p \<in> set (db_products db)" and "p_category_id p = Some (c_id c)"
  shows "fst (deleteCategory (pg_client collate env) (c_id c) db)
           = \<lparr>success = True, error = None\<rparr> \<and>
         db_products (snd (deleteCategory (pg_client collate env) (c_id c) db))
           = map (\<lambda>r. if p_category_id r = Some (c_id c)
                      then r\<lparr>p_category_id := None, p_updated_at := Some (env_now env)\<rparr>
                      else r)
               (db_products db)"
  using assms(1) by (simp add: deleteCategory_pg)

theorem deleteCategory_sets_null_witness:
  "fst (deleteCategory
      (pg_client (\<lambda>s. s) \<lparr>env_now = ''2024-06-01'', env_uuid = (\<lambda>i. ''u'')\<rparr>) ''c1''
      \<lparr>db_customers = [],
       db_categories = [\<lparr>c_id = ''c1'', c_name = ''Food'', c_description = None,
                         c_created_at = Some ''2024-01-01'', c_updated_at = Some ''2024-01-01''\<rparr>],
       db_products = [\<lparr>p_id = ''p1'', p_name = ''Dog Food'', p_description = None,
                       p_category_id = Some ''c1'', p_sku = ''FOOD-001'', p_price = 8999 / 100,
                       p_cost = Some 50, p_stock = Some 30, p_min_stock = Some 5,
                       p_unit = Some ''unit'', p_status = Some ''active'',
                       p_created_at = Some ''2024-01-01'', p_updated_at = Some ''2024-01-01''\<rparr>],
       db_orders = [], db_order_items = []\<rparr>)
     = \<lparr>success = True, error = None\<rparr> \<and>
   db_products (snd (deleteCategory
      (pg_client (\<lambda>s. s) \<lparr>env_now = ''2024-06-01'', env_uuid = (\<lambda>i. ''u'')\<rparr>) ''c1''
      \<lparr>db_customers = [],
       db_categories = [\<lparr>c_id = ''c1'', c_name = ''Food'', c_description = None,
                         c_created_at = Some ''2024-01-01'', c_updated_at = Some ''2024-01-01''\<rparr>],
       db_products = [\<lparr>p_id = ''p1'', p_name = ''Dog Food'', p_description = None,
                       p_category_id = Some ''c1'', p_sku = ''FOOD-001'', p_price = 8999 / 100,
                       p_cost = Some 50, p_stock = Some 30, p_min_stock = Some 5,
                       p_unit = Some ''unit'', p_status = Some ''active'',
                       p_created_at = Some ''2024-01-01'', p_updated_at = Some ''2024-01-01''\<rparr>],
       db_orders = [], db_order_items = []\<rparr>))
     = [\<lparr>p_id = ''p1'', p_name = ''Dog Food'', p_description = None,
         p_category_id = None, p_sku = ''FOOD-001'', p_price = 8999 / 100,
         p_cost = Some 50, p_stock = Some 30, p_min_stock = Some 5,
         p_unit = Some ''unit'', p_status = Some ''active'',
         p_created_at = Some ''2024-01-01'', p_updated_at = Some ''2024-06-01''\<rparr>]"
  using deleteCategory_sets_null
    [where c = "\<lparr>c_id = ''c1'', c_name = ''Food'', c_description = None,
                  c_created_at = Some ''2024-01-01'', c_updated_at = Some ''2024-01-01''\<rparr>"
       and p = "\<lparr>p_id = ''p1'', p_name = ''Dog Food'', p_description = None,
                  p_category_id = Some ''c1'', p_sku = ''FOOD-001'', p_price = 8999 / 100,
                  p_cost = Some 50, p_stock = Some 30, p_min_stock = Some 5,
                  p_unit = Some ''unit'', p_status = Some ''active'',
                  p_created_at = Some ''2024-01-01'', p_updated_at = Some ''2024-01-01''\<rparr>"
       and db = "\<lparr>db_customers = [],
                   db_categories = [\<lparr>c_id = ''c1'', c_name = ''Food'', c_description = None,
                         c_created_at = Some ''2024-01-01'', c_updated_at = Some ''2024-01-01''\<rparr>],
                   db_products = [\<lparr>p_id = ''p1'', p_name = ''Dog Food'', p_description = None,
                       p_category_id = Some ''c1'', p_sku = ''FOOD-001'', p_price = 8999 / 100,
                       p_cost = Some 50, p_stock = Some 30, p_min_stock = Some 5,
                       p_unit = Some ''unit'', p_status = Some ''active'',
                       p_created_at = Some ''2024-01-01'', p_updated_at = Some ''2024-01-01''\<rparr>],
                   db_orders = [], db_order_items = []\<rparr>"
       and collate = "\<lambda>s. s"
       and env = "\<lparr>env_now = ''2024-06-01'', env_uuid = (\<lambda>i. ''u'')\<rparr>"]
  by simp


subsection \<open>Writing categories\<close>

lemma createCategory_payload_applied:
  "apply_category_payload (createCategory_payload fd) d =
     Inr (d\<lparr>cd_name := formData_get fd ''name'',
            cd_description := or_null (formData_get fd ''description'')\<rparr>)"
  by (cases "formData_get fd ''name''"; cases "or_null (formData_get fd ''description'')")
     (simp_all add: apply_category_payload_def createCategory_payload_def unknown_column_def
      category_columns_def column_value_def bind_result_def)

lemma insert_category_create:
  "insert_category env i (createCategory_payload fd) db =
     (case formData_get fd ''name'' of
        None \<Rightarrow> Inl (not_null_violation ''name'')
      | Some n \<Rightarrow>
          if env_uuid env i \<in> c_id ` set (db_categories db)
          then Inl (unique_violation ''categories_pkey'')
          else if n \<in> c_name ` set (db_categories db)
          then Inl (unique_violation ''categories_name_key'')
          else Inr (db\<lparr>db_categories := db_categories db @
                 [\<lparr>c_id = env_uuid env i, c_name = n,
                   c_description = or_null (formData_get fd ''description''),
                   c_created_at = Some (env_now env), c_updated_at = Some (env_now env)\<rparr>]\<rparr>))"
  by (simp add: insert_category_def createCategory_payload_applied bind_result_def
      category_of_draft_def not_null_def category_defaults_def split: option.split)

lemma createCategory_pg:
  "createCategory (pg_client collate env) fd db =
     (case insert_category env 0 (createCategory_payload fd) db of
        Inl e \<Rightarrow> (\<lparr>success = False, error = Some (message e)\<rparr>, db)
      | Inr db' \<Rightarrow> (\<lparr>success = True, error = None\<rparr>, db'))"
  by (simp add: createCategory_def pg_client_def run_def bind_result_def split: sum.split)

lemma createCategory_duplicate_name:
  assumes "formData_get fd ''name'' = Some n" and "n \<in> c_name ` set (db_categories db)"
  shows "\<exists>m. createCategory (pg_client collate env) fd db
               = (\<lparr>success = False, error = Some m\<rparr>, db)"
  using assms by (simp add: createCategory_pg insert_category_create)

lemma updateCategory_payload_applied:
  "apply_category_payload (updateCategory_payload now fd) d =
     Inr (d\<lparr>cd_name := formData_get fd ''name'',
            cd_description := or_null (formData_get fd ''description''),
            cd_updated_at := Some now\<rparr>)"
  by (cases "formData_get fd ''name''"; cases "or_null (formData_get fd ''description'')")
     (simp_all add: apply_category_payload_def updateCategory_payload_def unknown_column_def
      category_columns_def column_value_def bind_result_def)

lemma updated_category_update:
  "updated_category env (updateCategory_payload now fd) r =
     (case formData_get fd ''name'' of
        None \<Rightarrow> Inl (not_null_violation ''name'')
      | Some n \<Rightarrow> Inr (r\<lparr>c_name := n, c_description := or_null (formData_get fd ''description''),
                        c_updated_at := Some (env_now env)\<rparr>))"
  by (simp add: updated_category_def updateCategory_payload_applied bind_result_def
      category_of_draft_def not_null_def draft_of_category_def category_before_update_def
      split: option.split)

lemma updateCategory_unknown:
  "unknown_column category_columns (updateCategory_payload now fd) = None"
  by (simp add: unknown_column_def category_columns_def updateCategory_payload_def)

lemma update_categories_no_match:
  "ident \<notin> c_id ` set (db_categories db) \<Longrightarrow>
   update_categories env (updateCategory_payload now fd) ident db = Inr db"
  by (simp add: update_categories_def updateCategory_unknown)

lemma sequence_update_no_name:
  "formData_get fd ''name'' = None \<Longrightarrow> ident \<in> c_id ` set rows \<Longrightarrow>
   sequence (map (\<lambda>r. if c_id r = ident
                       then updated_category env (updateCategory_payload now fd) r else Inr r) rows)
     = Inl (not_null_violation ''name'')"
  by (induction rows) (auto simp: updated_category_update split: sum.split)

lemma sequence_update_name:
  "formData_get fd ''name'' = Some n \<Longrightarrow>
   sequence (map (\<lambda>r. if c_id r = ident
                       then updated_category env (updateCategory_payload now fd) r else Inr r) rows)
     = Inr (map (\<lambda>r. if c_id r = ident
                     then r\<lparr>c_name := n, c_description := or_null (formData_get fd ''description''),
                            c_updated_at := Some (env_now env)\<rparr>
                     else r) rows)"
  by (induction rows) (simp_all add: updated_category_update)

text \<open>
  A successful update leaves the table as it was when no row has the identifier, and
  otherwise sets name, description and \<open>updated_at\<close> in the rows that have it.
\<close>

lemma update_categories_rows:
  assumes "update_categories env (updateCategory_payload now fd) ident db = Inr db'"
  shows "db' = db \<and> ident \<notin> c_id ` set (db_categories db) \<or>
         (\<exists>n. db_categories db' =
            map (\<lambda>r. if c_id r = ident
                     then r\<lparr>c_name := n,
                            c_description := or_null (formData_get fd ''description''),
                            c_updated_at := Some (env_now env)\<rparr>
                     else r) (db_categories db))"
proof (cases "ident \<in> c_id ` set (db_categories db)")
  case False
  with assms show ?thesis by (simp add: update_categories_no_match)
next
  case True
  show ?thesis
  proof (cases "formData_get fd ''name''")
    case None
    from sequence_update_no_name [OF None True]
    have "update_categories env (updateCategory_payload now fd) ident db
            = Inl (not_null_violation ''name'')"
      using True by (simp add: update_categories_def updateCategory_unknown bind_result_def)
    with assms show ?thesis by simp
  next
    case (Some n)
    let ?rows = "map (\<lambda>r. if c_id r = ident
                     then r\<lparr>c_name := n,
                            c_description := or_null (formData_get fd ''description''),
                            c_updated_at := Some (env_now env)\<rparr>
                     else r) (db_categories db)"
    have "update_categories env (updateCategory_payload now fd) ident db =
            (if \<not> distinct (map c_id ?rows) then Inl (unique_violation ''categories_pkey'')
             else if \<not> distinct (map c_name ?rows)
             then Inl (unique_violation ''categories_name_key'')
             else if ident \<notin> c_id ` set ?rows \<and>
                     Some ident \<in> p_category_id ` set (db_products db)
             then Inl (foreign_key_violation ''products_category_id_fkey'')
             else Inr (db\<lparr>db_categories := ?rows\<rparr>))"
      unfolding update_categories_def updateCategory_unknown sequence_update_name [OF Some]
        bind_result_def
      using True by simp
    with assms have "db' = db\<lparr>db_categories := ?rows\<rparr>"
      by (simp split: if_splits)
    then have "db_categories db' = ?rows" by simp
    then show ?thesis by blast
  qed
qed

lemma updateCategory_pg:
  "updateCategory (pg_client collate env) now ident fd db =
     (case update_categories env (updateCategory_payload now fd) ident db of
        Inl e \<Rightarrow> (\<lparr>success = False, error = Some (message e)\<rparr>, db)
      | Inr db' \<Rightarrow> (\<lparr>success = True, error = None\<rparr>, db'))"
  by (simp add: updateCategory_def pg_client_def run_def split: sum.split)

lemma insert_category_created:
  assumes "insert_category env i (createCategory_payload fd) db = Inr db'"
  shows "\<exists>r. db_categories db' = db_categories db @ [r] \<and>
             c_description r = or_null (formData_get fd ''description'')"
proof (cases "formData_get fd ''name''")
  case None
  with assms show ?thesis by (simp add: insert_category_create)
next
  case (Some n)
  with assms have "db' = db\<lparr>db_categories := db_categories db @
                 [\<lparr>c_id = env_uuid env i, c_name = n,
                   c_description = or_null (formData_get fd ''description''),
                   c_created_at = Some (env_now env), c_updated_at = Some (env_now env)\<rparr>]\<rparr>"
    by (simp add: insert_category_create split: if_splits)
  then show ?thesis by simp
qed

lemma createCategory_stores_null:
  assumes "formData_get fd ''description'' = Some []"
    and "success (fst (createCategory (pg_client collate env) fd db))"
  shows "\<exists>r. db_categories (snd (createCategory (pg_client collate env) fd db))
               = db_categories db @ [r] \<and> c_description r = None"
proof (cases "insert_category env 0 (createCategory_payload fd) db")
  case (Inl e)
  with assms(2) show ?thesis by (simp add: createCategory_pg)
next
  case (Inr db')
  from insert_category_created [OF Inr] assms(1)
  have "\<exists>r. db_categories db' = db_categories db @ [r] \<and> c_description r = None"
    by (simp add: or_null_def)
  with Inr show ?thesis by (simp add: createCategory_pg)
qed

lemma updateCategory_stores_null:
  assumes "formData_get fd ''description'' = Some []"
    and "success (fst (updateCategory (pg_client collate env) now ident fd db))"
    and "r \<in> set (db_categories (snd (updateCategory (pg_client collate env) now ident fd db)))"
    and "c_id r = ident"
  shows "c_description r = None"
proof (cases "update_categories env (updateCategory_payload now fd) ident db")
  case (Inl e)
  with assms(2) show ?thesis by (simp add: updateCategory_pg)
next
  case (Inr db')
  with assms(3) have r: "r \<in> set (db_categories db')"
    by (simp add: updateCategory_pg)
  have null: "or_null (formData_get fd ''description'') = None"
    using assms(1) by (simp add: or_null_def)
  from update_categories_rows [OF Inr] show ?thesis
  proof
    assume "db' = db \<and> ident \<notin> c_id ` set (db_categories db)"
    with r assms(4) show ?thesis by blast
  next
    assume "\<exists>n. db_categories db' =
            map (\<lambda>r. if c_id r = ident
                     then r\<lparr>c_name := n,
                            c_description := or_null (formData_get fd ''description''),
                            c_updated_at := Some (env_now env)\<rparr>
                     else r) (db_categories db)"
    then obtain n where "db_categories db' =
            map (\<lambda>r. if c_id r = ident
                     then r\<lparr>c_name := n, c_description := None,
                            c_updated_at := Some (env_now env)\<rparr>
                     else r) (db_categories db)"
      unfolding null by blast
    with r obtain x where "x \<in> set (db_categories db)"
      and "r = (if c_id x = ident
                then x\<lparr>c_name := n, c_description := None, c_updated_at := Some (env_now env)\<rparr>
                else x)"
      by auto
    with assms(4) show ?thesis
      by (cases "c_id x = ident") simp_all
  qed
qed

text \<open>
  Claim C10.  When the submitted description is the empty string, the payloads of
  \<open>createCategory\<close> and \<open>updateCategory\<close> carry \<open>description: null\<close>, and over the schema
  a successful create appends a row whose description is null, a successful update
  leaves the updated rows with a null description.  In the dialog, emptying the
  description textarea sets the form's description to null.
\<close>

theorem empty_description_becomes_null:
  assumes "formData_get fd ''description'' = Some []"
  shows "map_of (createCategory_payload fd) ''description'' = Some JNull \<and>
         map_of (updateCategory_payload now fd) ''description'' = Some JNull \<and>
         f_description (description_onChange [] f) = None \<and>
         (success (fst (createCategory (pg_client collate env) fd db)) \<longrightarrow>
            (\<exists>r. db_categories (snd (createCategory (pg_client collate env) fd db))
                    = db_categories db @ [r] \<and> c_description r = None)) \<and>
         (success (fst (updateCategory (pg_client collate env) now ident fd db)) \<longrightarrow>
            (\<forall>r \<in> set (db_categories
                          (snd (updateCategory (pg_client collate env) now ident fd db))).
               c_id r = ident \<longrightarrow> c_description r = None))"
proof (intro conjI impI ballI)
  show "map_of (createCategory_payload fd) ''description'' = Some JNull"
    using assms by (simp add: createCategory_payload_def or_null_def)
  show "map_of (updateCategory_payload now fd) ''description'' = Some JNull"
    using assms by (simp add: updateCategory_payload_def or_null_def)
  show "f_description (description_onChange [] f) = None"
    by (simp add: description_onChange_def or_null_def)
  show "\<exists>r. db_categories (snd (createCategory (pg_client collate env) fd db))
               = db_categories db @ [r] \<and> c_description r = None"
    if "success (fst (createCategory (pg_client collate env) fd db))"
    using assms that by (rule createCategory_stores_null)
  show "c_description r = None"
    if "success (fst (updateCategory (pg_client collate env) now ident fd db))"
      and "r \<in> set (db_categories
                      (snd (updateCategory (pg_client collate env) now ident fd db)))"
      and "c_id r = ident" for r
    using assms that by (rule updateCategory_stores_null)
qed

theorem empty_description_becomes_null_witness:
  "formData_get [(''name'', ''Toys''), (''description'', [])] ''description'' = Some [] \<and>
   map_of (createCategory_payload [(''name'', ''Toys''), (''description'', [])]) ''description''
     = Some JNull \<and>
   map_of (updateCategory_payload ''2024-06-01T00:00:00.000Z''
             [(''name'', ''Toys''), (''description'', [])]) ''description'' = Some JNull \<and>
   f_description (description_onChange [] \<lparr>f_name = ''Toys'', f_description = Some ''x''\<rparr>)
     = None \<and>
   success (fst (createCategory
      (pg_client (\<lambda>s. s) \<lparr>env_now = ''2024-06-01'', env_uuid = (\<lambda>i. ''c2'')\<rparr>)
      [(''name'', ''Toys''), (''description'', [])]
      \<lparr>db_customers = [],
       db_categories = [\<lparr>c_id = ''c1'', c_name = ''Food'', c_description = Some ''Pet food'',
                         c_created_at = Some ''2024-01-01'', c_updated_at = Some ''2024-01-01''\<rparr>],
       db_products = [], db_orders = [], db_order_items = []\<rparr>)) \<and>
   map c_description (db_categories (snd (createCategory
      (pg_client (\<lambda>s. s) \<lparr>env_now = ''2024-06-01'', env_uuid = (\<lambda>i. ''c2'')\<rparr>)
      [(''name'', ''Toys''), (''description'', [])]
      \<lparr>db_customers = [],
       db_categories = [\<lparr>c_id = ''c1'', c_name = ''Food'', c_description = Some ''Pet food'',
                         c_created_at = Some ''2024-01-01'', c_updated_at = Some ''2024-01-01''\<rparr>],
       db_products = [], db_orders = [], db_order_items = []\<rparr>)))
     = [Some ''Pet food'', None] \<and>
   success (fst (updateCategory
      (pg_client (\<lambda>s. s) \<lparr>env_now = ''2024-06-01'', env_uuid = (\<lambda>i. ''c2'')\<rparr>)
      ''2024-06-01T00:00:00.000Z'' ''c1'' [(''name'', ''Toys''), (''description'', [])]
      \<lparr>db_customers = [],
       db_categories = [\<lparr>c_id = ''c1'', c_name = ''Food'', c_description = Some ''Pet food'',
                         c_created_at = Some ''2024-01-01'', c_updated_at = Some ''2024-01-01''\<rparr>],
       db_products = [], db_orders = [], db_order_items = []\<rparr>)) \<and>
   map c_description (db_categories (snd (updateCategory
      (pg_client (\<lambda>s. s) \<lparr>env_now = ''2024-06-01'', env_uuid = (\<lambda>i. ''c2'')\<rparr>)
      ''2024-06-01T00:00:00.000Z'' ''c1'' [(''name'', ''Toys''), (''description'', [])]
      \<lparr>db_customers = [],
       db_categories = [\<lparr>c_id = ''c1'', c_name = ''Food'', c_description = Some ''Pet food'',
                         c_created_at = Some ''2024-01-01'', c_updated_at = Some ''2024-01-01''\<rparr>],
       db_products = [], db_orders = [], db_order_items = []\<rparr>)))
     = [None]"
  using empty_description_becomes_null
    [where fd = "[(''name'', ''Toys''), (''description'', [])]"
       and now = "''2024-06-01T00:00:00.000Z''"
       and f = "\<lparr>f_name = ''Toys'', f_description = Some ''x''\<rparr>"
       and collate = "\<lambda>s. s"
       and env = "\<lparr>env_now = ''2024-06-01'', env_uuid = (\<lambda>i. ''c2'')\<rparr>"
       and ident = "''c1''"
       and db = "\<lparr>db_customers = [],
                   db_categories = [\<lparr>c_id = ''c1'', c_name = ''Food'',
                         c_description = Some ''Pet food'',
                         c_created_at = Some ''2024-01-01'', c_updated_at = Some ''2024-01-01''\<rparr>],
                   db_products = [], db_orders = [], db_order_items = []\<rparr>"]
  by (simp add: formData_get_def createCategory_pg insert_category_create or_null_def
      updateCategory_pg update_categories_def updateCategory_unknown updated_category_update
      bind_result_def)

subsection \<open>Duplicate keys\<close>

lemma bind_result_Inr:
  "bind_result r f = Inr y \<longleftrightarrow> (\<exists>x. r = Inr x \<and> f x = Inr y)"
  by (cases r) (simp_all add: bind_result_def)

lemma column_value_text:
  "map_of p col = Some (JString k) \<Longrightarrow> column_value text_value p col keep = Inr (Some k)"
  by (simp add: column_value_def)

text \<open>A stored products row has the SKU of the payload, and a SKU already present is refused.\<close>

lemma apply_product_payload_sku:
  assumes "apply_product_payload p d0 = Inr d" and "map_of p ''sku'' = Some (JString k)"
  shows "pd_sku d = Some k"
proof -
  from assms(1) obtain sk where "column_value text_value p ''sku'' (pd_sku d0) = Inr sk"
    and "pd_sku d = sk"
    by (auto simp: apply_product_payload_def bind_result_Inr split: option.splits)
  with assms(2) show ?thesis by (simp add: column_value_text)
qed

lemma product_of_draft_sku:
  assumes "product_of_draft d = Inr r"
  shows "pd_sku d = Some (p_sku r)"
proof -
  from assms obtain sk where "not_null ''sku'' (pd_sku d) = Inr sk" and "p_sku r = sk"
    by (auto simp: product_of_draft_def bind_result_Inr)
  then show ?thesis by (simp add: not_null_def split: option.splits)
qed

lemma add_product_duplicate:
  "p_sku r \<in> p_sku ` set (db_products db) \<Longrightarrow> \<exists>e. add_product r db = Inl e"
  by (simp add: add_product_def)

lemma insert_product_duplicate:
  assumes "map_of p ''sku'' = Some (JString k)" and "k \<in> p_sku ` set (db_products db)"
  shows "\<exists>e. insert_product env i p db = Inl e"
proof (cases "apply_product_payload p (product_defaults env i)")
  case (Inl e)
  then show ?thesis by (simp add: insert_product_def bind_result_def)
next
  case d: (Inr d)
  show ?thesis
  proof (cases "product_of_draft d")
    case (Inl e)
    with d show ?thesis by (simp add: insert_product_def bind_result_def)
  next
    case (Inr r)
    from apply_product_payload_sku [OF d assms(1)] product_of_draft_sku [OF Inr]
    have "p_sku r = k" by simp
    with assms(2) obtain e where "add_product r db = Inl e"
      using add_product_duplicate by blast
    with d Inr show ?thesis by (simp add: insert_product_def bind_result_def)
  qed
qed

lemma insert_into_products_duplicate:
  assumes "map_of p ''sku'' = Some (JString k)" and "k \<in> p_sku ` set (db_products db)"
  shows "\<exists>e. insert_into (pg_client collate env) ''products'' [p] db = (Some e, db)"
proof -
  from insert_product_duplicate [OF assms] obtain e where "insert_product env 0 p db = Inl e"
    by blast
  then show ?thesis
    by (simp add: pg_client_def run_def bind_result_def)
qed

text \<open>The same for an orders row and its order number.\<close>

lemma apply_order_payload_number:
  assumes "apply_order_payload p d0 = Inr d"
    and "map_of p ''order_number'' = Some (JString k)"
  shows "od_order_number d = Some k"
proof -
  from assms(1) obtain n
    where "column_value text_value p ''order_number'' (od_order_number d0) = Inr n"
      and "od_order_number d = n"
    by (auto simp: apply_order_payload_def bind_result_Inr split: option.splits)
  with assms(2) show ?thesis by (simp add: column_value_text)
qed

lemma order_of_draft_number:
  assumes "order_of_draft d = Inr r"
  shows "od_order_number d = Some (o_order_number r)"
proof -
  from assms obtain n where "not_null ''order_number'' (od_order_number d) = Inr n"
    and "o_order_number r = n"
    by (auto simp: order_of_draft_def bind_result_Inr)
  then show ?thesis by (simp add: not_null_def split: option.splits)
qed

lemma add_order_duplicate:
  "o_order_number r \<in> o_order_number ` set (db_orders db) \<Longrightarrow> \<exists>e. add_order r db = Inl e"
  by (simp add: add_order_def)

lemma insert_order_duplicate:
  assumes "map_of p ''order_number'' = Some (JString k)"
    and "k \<in> o_order_number ` set (db_orders db)"
  shows "\<exists>e. insert_order env i p db = Inl e"
proof (cases "apply_order_payload p (order_defaults env i)")
  case (Inl e)
  then show ?thesis by (simp add: insert_order_def bind_result_def)
next
  case d: (Inr d)
  show ?thesis
  proof (cases "order_of_draft d")
    case (Inl e)
    with d show ?thesis by (simp add: insert_order_def bind_result_def)
  next
    case (Inr r)
    from apply_order_payload_number [OF d assms(1)] order_of_draft_number [OF Inr]
    have "o_order_number r = k" by simp
    with assms(2) obtain e where "add_order r db = Inl e"
      using add_order_duplicate by blast
    with d Inr show ?thesis by (simp add: insert_order_def bind_result_def)
  qed
qed

lemma createOrder_duplicate:
  assumes "map_of p ''order_number'' = Some (JString k)"
    and "k \<in> o_order_number ` set (db_orders db)"
  shows "\<exists>m. createOrder (pg_client collate env) p db
               = (\<lparr>success = False, error = Some m\<rparr>, db)"
proof -
  from insert_order_duplicate [OF assms] obtain e where "insert_order env 0 p db = Inl e"
    by blast
  then show ?thesis
    by (simp add: createOrder_def pg_client_def run_def bind_result_def)
qed

lemma insert_seed_order_duplicate:
  assumes "so_order_number v \<in> o_order_number ` set (db_orders db)"
  shows "\<exists>e. insert_seed_order env i v db = Inl e"
proof (cases "insert_seed_order env i v db")
  case (Inl e)
  then show ?thesis by simp
next
  case (Inr db')
  then obtain d r where "order_of_draft d = Inr r" and "add_order r db = Inr db'"
    and "od_order_number d = Some (so_order_number v)"
    by (auto simp: insert_seed_order_def bind_result_Inr)
  with order_of_draft_number [of d r] assms add_order_duplicate [of r db]
  show ?thesis by auto
qed

text \<open>The seed statements.\<close>

lemma find_in_set: "find P xs = Some x \<Longrightarrow> x \<in> set xs"
  by (induction xs) (auto split: if_splits)

lemma references_category_id_by_name:
  "references (map c_id (db_categories db)) (category_id_by_name db n)"
  by (cases "find (\<lambda>c. c_name c = n) (db_categories db)")
     (auto simp: references_def category_id_by_name_def dest: find_in_set)

lemma decimal_10_2_nonneg:
  assumes "0 \<le> r" and "r \<le> 1000000"
  shows "decimal_10_2 col r = Inr (of_int \<lfloor>r * 100 + 1 / 2\<rfloor> / 100)"
proof -
  let ?n = "\<lfloor>r * 100 + 1 / 2\<rfloor>"
  have abs: "\<bar>r\<bar> = r" using assms by simp
  have lo: "0 \<le> ?n" using assms by simp
  have "r * 100 + 1 / 2 < 100000001" using assms by simp
  then have hi: "?n < 100000001" by (simp add: floor_less_iff)
  have q: "sgn r * of_int ?n / 100 = of_int ?n / 100"
  proof (cases "r = 0")
    case True
    have "\<lfloor>1 / 2 :: rat\<rfloor> = 0" by (rule floor_unique) simp_all
    with True show ?thesis by simp
  next
    case False
    with assms have "sgn r = 1" by (simp add: sgn_if)
    then show ?thesis by simp
  qed
  have "(of_int ?n :: rat) < 100000001" using hi by linarith
  moreover have "(0::rat) \<le> of_int ?n" using lo by simp
  ultimately have "\<bar>(of_int ?n :: rat) / 100\<bar> < 100000000" by simp
  then show ?thesis
    unfolding decimal_10_2_def Let_def abs q by simp
qed

lemma upsert_existing:
  assumes "sp_sku v \<in> p_sku ` set (db_products db)"
    and "0 \<le> sp_price v" "sp_price v \<le> 1000000" "0 \<le> sp_cost v" "sp_cost v \<le> 1000000"
    and "0 \<le> sp_stock v" "sp_status v \<in> set product_statuses"
  shows "upsert_seed_product env i v db =
     Inr (db\<lparr>db_products :=
       map (\<lambda>r. if p_sku r = sp_sku v
                then r\<lparr>p_name := sp_name v, p_description := Some (sp_description v),
                       p_category_id := category_id_by_name db (sp_category v),
                       p_price := of_int \<lfloor>sp_price v * 100 + 1 / 2\<rfloor> / 100,
                       p_cost := Some (of_int \<lfloor>sp_cost v * 100 + 1 / 2\<rfloor> / 100),
                       p_stock := Some (sp_stock v), p_min_stock := Some (sp_min_stock v),
                       p_status := Some (sp_status v), p_updated_at := Some (env_now env)\<rparr>
                else r)
         (db_products db)\<rparr>)"
  using assms
  by (simp add: upsert_seed_product_def decimal_10_2_nonneg bind_result_def product_of_draft_def
      product_defaults_def not_null_def check_def nonneg_def one_of_def
      references_category_id_by_name on_conflict_update_def product_before_update_def)

text \<open>The category seed never overwrites either: a name already present is skipped.\<close>

lemma insert_seed_category_duplicate:
  "fst v \<in> c_name ` set (db_categories db) \<Longrightarrow> insert_seed_category env i v db = Inr db"
  by (simp add: insert_seed_category_def)

text \<open>
  On a table that holds the SKU \<open>MED-001\<close> and the order number \<open>ORD-2024-001\<close>, an
  insert of a well-formed products row with that SKU, and of a well-formed orders row
  with that number, is refused by the unique constraint.
\<close>

lemma duplicate_keys_refused_example:
  "insert_into (pg_client (\<lambda>s. s) \<lparr>env_now = ''2024-06-01'', env_uuid = (\<lambda>i. ''u9'')\<rparr>) ''products''
     [[(''name'', JString ''Flea Collar''), (''category_id'', JString ''c1''),
      (''sku'', JString ''MED-001''), (''price'', JNumber (Num (25 / 2)))]]
     \<lparr>db_customers = [],
      db_categories = [\<lparr>c_id = ''c1'', c_name = ''Medications'', c_description = None,
                        c_created_at = Some ''2024-01-01'', c_updated_at = Some ''2024-01-01''\<rparr>],
      db_products = [\<lparr>p_id = ''p1'', p_name = ''Flea Drops'', p_description = None,
                      p_category_id = None, p_sku = ''MED-001'', p_price = 40,
                      p_cost = None, p_stock = Some 0, p_min_stock = Some 10,
                      p_unit = Some ''unit'', p_status = Some ''inactive'',
                      p_created_at = Some ''2024-01-01'', p_updated_at = Some ''2024-01-01''\<rparr>],
      db_orders = [\<lparr>o_id = ''o1'', o_order_number = ''ORD-2024-001'', o_customer_id = None,
                    o_total_amount = 10, o_discount = Some 0, o_tax = Some 0,
                    o_status = Some ''pending'', o_payment_status = Some ''unpaid'',
                    o_payment_method = None, o_notes = None,
                    o_created_at = Some ''2024-01-01'', o_updated_at = Some ''2024-01-01''\<rparr>],
      db_order_items = []\<rparr>
     = (Some (unique_violation ''products_sku_key''),
     \<lparr>db_customers = [],
      db_categories = [\<lparr>c_id = ''c1'', c_name = ''Medications'', c_description = None,
                        c_created_at = Some ''2024-01-01'', c_updated_at = Some ''2024-01-01''\<rparr>],
      db_products = [\<lparr>p_id = ''p1'', p_name = ''Flea Drops'', p_description = None,
                      p_category_id = None, p_sku = ''MED-001'', p_price = 40,
                      p_cost = None, p_stock = Some 0, p_min_stock = Some 10,
                      p_unit = Some ''unit'', p_status = Some ''inactive'',
                      p_created_at = Some ''2024-01-01'', p_updated_at = Some ''2024-01-01''\<rparr>],
      db_orders = [\<lparr>o_id = ''o1'', o_order_number = ''ORD-2024-001'', o_customer_id = None,
                    o_total_amount = 10, o_discount = Some 0, o_tax = Some 0,
                    o_status = Some ''pending'', o_payment_status = Some ''unpaid'',
                    o_payment_method = None, o_notes = None,
                    o_created_at = Some ''2024-01-01'', o_updated_at = Some ''2024-01-01''\<rparr>],
      db_order_items = []\<rparr>) \<and>
   insert_into (pg_client (\<lambda>s. s) \<lparr>env_now = ''2024-06-01'', env_uuid = (\<lambda>i. ''u9'')\<rparr>) ''orders''
     [[(''order_number'', JString ''ORD-2024-001''), (''total_amount'', JNumber (Num 20))]]
     \<lparr>db_customers = [],
      db_categories = [\<lparr>c_id = ''c1'', c_name = ''Medications'', c_description = None,
                        c_created_at = Some ''2024-01-01'', c_updated_at = Some ''2024-01-01''\<rparr>],
      db_products = [\<lparr>p_id = ''p1'', p_name = ''Flea Drops'', p_description = None,
                      p_category_id = None, p_sku = ''MED-001'', p_price = 40,
                      p_cost = None, p_stock = Some 0, p_min_stock = Some 10,
                      p_unit = Some ''unit'', p_status = Some ''inactive'',
                      p_created_at = Some ''2024-01-01'', p_updated_at = Some ''2024-01-01''\<rparr>],
      db_orders = [\<lparr>o_id = ''o1'', o_order_number = ''ORD-2024-001'', o_customer_id = None,
                    o_total_amount = 10, o_discount = Some 0, o_tax = Some 0,
                    o_status = Some ''pending'', o_payment_status = Some ''unpaid'',
                    o_payment_method = None, o_notes = None,
                    o_created_at = Some ''2024-01-01'', o_updated_at = Some ''2024-01-01''\<rparr>],
      db_order_items = []\<rparr>
     = (Some (unique_violation ''orders_order_number_key''),
     \<lparr>db_customers = [],
      db_categories = [\<lparr>c_id = ''c1'', c_name = ''Medications'', c_description = None,
                        c_created_at = Some ''2024-01-01'', c_updated_at = Some ''2024-01-01''\<rparr>],
      db_products = [\<lparr>p_id = ''p1'', p_name = ''Flea Drops'', p_description = None,
                      p_category_id = None, p_sku = ''MED-001'', p_price = 40,
                      p_cost = None, p_stock = Some 0, p_min_stock = Some 10,
                      p_unit = Some ''unit'', p_status = Some ''inactive'',
                      p_created_at = Some ''2024-01-01'', p_updated_at = Some ''2024-01-01''\<rparr>],
      db_orders = [\<lparr>o_id = ''o1'', o_order_number = ''ORD-2024-001'', o_customer_id = None,
                    o_total_amount = 10, o_discount = Some 0, o_tax = Some 0,
                    o_status = Some ''pending'', o_payment_status = Some ''unpaid'',
                    o_payment_method = None, o_notes = None,
                    o_created_at = Some ''2024-01-01'', o_updated_at = Some ''2024-01-01''\<rparr>],
      db_order_items = []\<rparr>)"
proof -
  have "\<lfloor>2501 / 2 :: rat\<rfloor> = 1250"
    by (rule floor_unique) simp_all
  then show ?thesis
    by (simp add: pg_client_def run_def bind_result_def insert_product_def insert_order_def
        apply_product_payload_def apply_order_payload_def unknown_column_def
        product_columns_def order_columns_def column_value_def decimal_10_2_def
        product_defaults_def order_defaults_def product_of_draft_def order_of_draft_def
        not_null_def check_def nonneg_def one_of_def product_statuses_def order_statuses_def
        payment_statuses_def add_product_def add_order_def)
qed

text \<open>
  Claim C6.  A create that would duplicate a unique key surfaces an error and leaves
  the tables as they were.  \<open>createCategory\<close> with a name already present returns
  \<open>{success: false, error: m}\<close> and the same database state.  The insert that
  \<open>createProduct\<close> sends is refused, whatever its columns, when its SKU is already
  present; \<open>createProduct\<close> itself returns \<open>{success: false, error: m}\<close> and the
  same state for every form, so also for one whose SKU is present.  \<open>createOrder\<close>
  with an order number already present returns \<open>{success: false, error: m}\<close> and the
  same state.  The
  exception is the seed statement for products: on a SKU already present,
  \<open>ON CONFLICT (sku) DO UPDATE\<close> does not fail and updates the existing row from the
  seed row.
\<close>

theorem duplicate_key_surfaces_error:
  "(formData_get fd ''name'' = Some n \<and> n \<in> c_name ` set (db_categories db) \<longrightarrow>
      (\<exists>m. createCategory (pg_client collate env) fd db
              = (\<lparr>success = False, error = Some m\<rparr>, db))) \<and>
   (map_of p ''sku'' = Some (JString k) \<and> k \<in> p_sku ` set (db_products db) \<longrightarrow>
      (\<exists>e. insert_into (pg_client collate env) ''products'' [p] db = (Some e, db))) \<and>
   (\<exists>m. createProduct (pg_client collate env) pf pint pfd db
           = (\<lparr>success = False, error = Some m\<rparr>, db)) \<and>
   (map_of ord ''order_number'' = Some (JString num) \<and>
    num \<in> o_order_number ` set (db_orders db) \<longrightarrow>
      (\<exists>m. createOrder (pg_client collate env) ord db
              = (\<lparr>success = False, error = Some m\<rparr>, db))) \<and>
   (sp_sku v \<in> p_sku ` set (db_products db) \<and>
    0 \<le> sp_price v \<and> sp_price v \<le> 1000000 \<and> 0 \<le> sp_cost v \<and> sp_cost v \<le> 1000000 \<and>
    0 \<le> sp_stock v \<and> sp_status v \<in> set product_statuses \<longrightarrow>
      upsert_seed_product env i v db =
        Inr (db\<lparr>db_products :=
          map (\<lambda>r. if p_sku r = sp_sku v
                   then r\<lparr>p_name := sp_name v, p_description := Some (sp_description v),
                          p_category_id := category_id_by_name db (sp_category v),
                          p_price := of_int \<lfloor>sp_price v * 100 + 1 / 2\<rfloor> / 100,
                          p_cost := Some (of_int \<lfloor>sp_cost v * 100 + 1 / 2\<rfloor> / 100),
                          p_stock := Some (sp_stock v), p_min_stock := Some (sp_min_stock v),
                          p_status := Some (sp_status v),
                          p_updated_at := Some (env_now env)\<rparr>
                   else r)
            (db_products db)\<rparr>))"
proof (intro conjI impI)
  show "\<exists>m. createCategory (pg_client collate env) fd db
              = (\<lparr>success = False, error = Some m\<rparr>, db)"
    if "formData_get fd ''name'' = Some n \<and> n \<in> c_name ` set (db_categories db)"
    using that by (blast intro: createCategory_duplicate_name)
  show "\<exists>e. insert_into (pg_client collate env) ''products'' [p] db = (Some e, db)"
    if "map_of p ''sku'' = Some (JString k) \<and> k \<in> p_sku ` set (db_products db)"
    using that by (blast intro: insert_into_products_duplicate)
  show "\<exists>m. createProduct (pg_client collate env) pf pint pfd db
              = (\<lparr>success = False, error = Some m\<rparr>, db)"
    by (simp add: createProduct_pg)
  show "\<exists>m. createOrder (pg_client collate env) ord db
              = (\<lparr>success = False, error = Some m\<rparr>, db)"
    if "map_of ord ''order_number'' = Some (JString num) \<and>
        num \<in> o_order_number ` set (db_orders db)"
    using that by (blast intro: createOrder_duplicate)
  show "upsert_seed_product env i v db =
        Inr (db\<lparr>db_products :=
          map (\<lambda>r. if p_sku r = sp_sku v
                   then r\<lparr>p_name := sp_name v, p_description := Some (sp_description v),
                          p_category_id := category_id_by_name db (sp_category v),
                          p_price := of_int \<lfloor>sp_price v * 100 + 1 / 2\<rfloor> / 100,
                          p_cost := Some (of_int \<lfloor>sp_cost v * 100 + 1 / 2\<rfloor> / 100),
                          p_stock := Some (sp_stock v), p_min_stock := Some (sp_min_stock v),
                          p_status := Some (sp_status v),
                          p_updated_at := Some (env_now env)\<rparr>
                   else r)
            (db_products db)\<rparr>)"
    if "sp_sku v \<in> p_sku ` set (db_products db) \<and>
        0 \<le> sp_price v \<and> sp_price v \<le> 1000000 \<and> 0 \<le> sp_cost v \<and> sp_cost v \<le> 1000000 \<and>
        0 \<le> sp_stock v \<and> sp_status v \<in> set product_statuses"
    using that by (intro upsert_existing) blast+
qed

theorem duplicate_key_surfaces_error_witness:
  "(\<exists>m. createCategory (pg_client (\<lambda>s. s) \<lparr>env_now = ''2024-06-01'', env_uuid = (\<lambda>i. ''u9'')\<rparr>)
     [(''name'', ''Medications''), (''description'', ''Again'')]
     \<lparr>db_customers = [],
      db_categories = [\<lparr>c_id = ''c1'', c_name = ''Medications'', c_description = None,
                        c_created_at = Some ''2024-01-01'', c_updated_at = Some ''2024-01-01''\<rparr>],
      db_products = [\<lparr>p_id = ''p1'', p_name = ''Flea Drops'', p_description = None,
                      p_category_id = None, p_sku = ''MED-001'', p_price = 40,
                      p_cost = None, p_stock = Some 0, p_min_stock = Some 10,
                      p_unit = Some ''unit'', p_status = Some ''inactive'',
                      p_created_at = Some ''2024-01-01'', p_updated_at = Some ''2024-01-01''\<rparr>],
      db_orders = [\<lparr>o_id = ''o1'', o_order_number = ''ORD-2024-001'', o_customer_id = None,
                    o_total_amount = 10, o_discount = Some 0, o_tax = Some 0,
                    o_status = Some ''pending'', o_payment_status = Some ''unpaid'',
                    o_payment_method = None, o_notes = None,
                    o_created_at = Some ''2024-01-01'', o_updated_at = Some ''2024-01-01''\<rparr>],
      db_order_items = []\<rparr>
     = (\<lparr>success = False, error = Some m\<rparr>,
     \<lparr>db_customers = [],
      db_categories = [\<lparr>c_id = ''c1'', c_name = ''Medications'', c_description = None,
                        c_created_at = Some ''2024-01-01'', c_updated_at = Some ''2024-01-01''\<rparr>],
      db_products = [\<lparr>p_id = ''p1'', p_name = ''Flea Drops'', p_description = None,
                      p_category_id = None, p_sku = ''MED-001'', p_price = 40,
                      p_cost = None, p_stock = Some 0, p_min_stock = Some 10,
                      p_unit = Some ''unit'', p_status = Some ''inactive'',
                      p_created_at = Some ''2024-01-01'', p_updated_at = Some ''2024-01-01''\<rparr>],
      db_orders = [\<lparr>o_id = ''o1'', o_order_number = ''ORD-2024-001'', o_customer_id = None,
                    o_total_amount = 10, o_discount = Some 0, o_tax = Some 0,
                    o_status = Some ''pending'', o_payment_status = Some ''unpaid'',
                    o_payment_method = None, o_notes = None,
                    o_created_at = Some ''2024-01-01'', o_updated_at = Some ''2024-01-01''\<rparr>],
      db_order_items = []\<rparr>)) \<and>
   (\<exists>e. insert_into (pg_client (\<lambda>s. s) \<lparr>env_now = ''2024-06-01'', env_uuid = (\<lambda>i. ''u9'')\<rparr>) ''products''
     [[(''name'', JString ''Flea Collar''), (''category_id'', JString ''c1''),
      (''sku'', JString ''MED-001''), (''price'', JNumber (Num (25 / 2)))]]
     \<lparr>db_customers = [],
      db_categories = [\<lparr>c_id = ''c1'', c_name = ''Medications'', c_description = None,
                        c_created_at = Some ''2024-01-01'', c_updated_at = Some ''2024-01-01''\<rparr>],
      db_products = [\<lparr>p_id = ''p1'', p_name = ''Flea Drops'', p_description = None,
                      p_category_id = None, p_sku = ''MED-001'', p_price = 40,
                      p_cost = None, p_stock = Some 0, p_min_stock = Some 10,
                      p_unit = Some ''unit'', p_status = Some ''inactive'',
                      p_created_at = Some ''2024-01-01'', p_updated_at = Some ''2024-01-01''\<rparr>],
      db_orders = [\<lparr>o_id = ''o1'', o_order_number = ''ORD-2024-001'', o_customer_id = None,
                    o_total_amount = 10, o_discount = Some 0, o_tax = Some 0,
                    o_status = Some ''pending'', o_payment_status = Some ''unpaid'',
                    o_payment_method = None, o_notes = None,
                    o_created_at = Some ''2024-01-01'', o_updated_at = Some ''2024-01-01''\<rparr>],
      db_order_items = []\<rparr>
     = (Some e,
     \<lparr>db_customers = [],
      db_categories = [\<lparr>c_id = ''c1'', c_name = ''Medications'', c_description = None,
                        c_created_at = Some ''2024-01-01'', c_updated_at = Some ''2024-01-01''\<rparr>],
      db_products = [\<lparr>p_id = ''p1'', p_name = ''Flea Drops'', p_description = None,
                      p_category_id = None, p_sku = ''MED-001'', p_price = 40,
                      p_cost = None, p_stock = Some 0, p_min_stock = Some 10,
                      p_unit = Some ''unit'', p_status = Some ''inactive'',
                      p_created_at = Some ''2024-01-01'', p_updated_at = Some ''2024-01-01''\<rparr>],
      db_orders = [\<lparr>o_id = ''o1'', o_order_number = ''ORD-2024-001'', o_customer_id = None,
                    o_total_amount = 10, o_discount = Some 0, o_tax = Some 0,
                    o_status = Some ''pending'', o_payment_status = Some ''unpaid'',
                    o_payment_method = None, o_notes = None,
                    o_created_at = Some ''2024-01-01'', o_updated_at = Some ''2024-01-01''\<rparr>],
      db_order_items = []\<rparr>)) \<and>
   (\<exists>m. createProduct (pg_client (\<lambda>s. s) \<lparr>env_now = ''2024-06-01'', env_uuid = (\<lambda>i. ''u9'')\<rparr>) (\<lambda>s. NaN) (\<lambda>s. NaN)
     [(''name'', ''Flea Collar''), (''description'', []), (''category_id'', ''c1''),
      (''sku'', ''MED-001''), (''unit'', ''unit''), (''price'', ''12.50''), (''cost'', []),
      (''stock'', ''3''), (''min_stock'', ''1''), (''status'', ''active'')]
     \<lparr>db_customers = [],
      db_categories = [\<lparr>c_id = ''c1'', c_name = ''Medications'', c_description = None,
                        c_created_at = Some ''2024-01-01'', c_updated_at = Some ''2024-01-01''\<rparr>],
      db_products = [\<lparr>p_id = ''p1'', p_name = ''Flea Drops'', p_description = None,
                      p_category_id = None, p_sku = ''MED-001'', p_price = 40,
                      p_cost = None, p_stock = Some 0, p_min_stock = Some 10,
                      p_unit = Some ''unit'', p_status = Some ''inactive'',
                      p_created_at = Some ''2024-01-01'', p_updated_at = Some ''2024-01-01''\<rparr>],
      db_orders = [\<lparr>o_id = ''o1'', o_order_number = ''ORD-2024-001'', o_customer_id = None,
                    o_total_amount = 10, o_discount = Some 0, o_tax = Some 0,
                    o_status = Some ''pending'', o_payment_status = Some ''unpaid'',
                    o_payment_method = None, o_notes = None,
                    o_created_at = Some ''2024-01-01'', o_updated_at = Some ''2024-01-01''\<rparr>],
      db_order_items = []\<rparr>
     = (\<lparr>success = False, error = Some m\<rparr>,
     \<lparr>db_customers = [],
      db_categories = [\<lparr>c_id = ''c1'', c_name = ''Medications'', c_description = None,
                        c_created_at = Some ''2024-01-01'', c_updated_at = Some ''2024-01-01''\<rparr>],
      db_products = [\<lparr>p_id = ''p1'', p_name = ''Flea Drops'', p_description = None,
                      p_category_id = None, p_sku = ''MED-001'', p_price = 40,
                      p_cost = None, p_stock = Some 0, p_min_stock = Some 10,
                      p_unit = Some ''unit'', p_status = Some ''inactive'',
                      p_created_at = Some ''2024-01-01'', p_updated_at = Some ''2024-01-01''\<rparr>],
      db_orders = [\<lparr>o_id = ''o1'', o_order_number = ''ORD-2024-001'', o_customer_id = None,
                    o_total_amount = 10, o_discount = Some 0, o_tax = Some 0,
                    o_status = Some ''pending'', o_payment_status = Some ''unpaid'',
                    o_payment_method = None, o_notes = None,
                    o_created_at = Some ''2024-01-01'', o_updated_at = Some ''2024-01-01''\<rparr>],
      db_order_items = []\<rparr>)) \<and>
   (\<exists>m. createOrder (pg_client (\<lambda>s. s) \<lparr>env_now = ''2024-06-01'', env_uuid = (\<lambda>i. ''u9'')\<rparr>)
     [(''order_number'', JString ''ORD-2024-001''), (''total_amount'', JNumber (Num 20))]
     \<lparr>db_customers = [],
      db_categories = [\<lparr>c_id = ''c1'', c_name = ''Medications'', c_description = None,
                        c_created_at = Some ''2024-01-01'', c_updated_at = Some ''2024-01-01''\<rparr>],
      db_products = [\<lparr>p_id = ''p1'', p_name = ''Flea Drops'', p_description = None,
                      p_category_id = None, p_sku = ''MED-001'', p_price = 40,
                      p_cost = None, p_stock = Some 0, p_min_stock = Some 10,
                      p_unit = Some ''unit'', p_status = Some ''inactive'',
                      p_created_at = Some ''2024-01-01'', p_updated_at = Some ''2024-01-01''\<rparr>],
      db_orders = [\<lparr>o_id = ''o1'', o_order_number = ''ORD-2024-001'', o_customer_id = None,
                    o_total_amount = 10, o_discount = Some 0, o_tax = Some 0,
                    o_status = Some ''pending'', o_payment_status = Some ''unpaid'',
                    o_payment_method = None, o_notes = None,
                    o_created_at = Some ''2024-01-01'', o_updated_at = Some ''2024-01-01''\<rparr>],
      db_order_items = []\<rparr>
     = (\<lparr>success = False, error = Some m\<rparr>,
     \<lparr>db_customers = [],
      db_categories = [\<lparr>c_id = ''c1'', c_name = ''Medications'', c_description = None,
                        c_created_at = Some ''2024-01-01'', c_updated_at = Some ''2024-01-01''\<rparr>],
      db_products = [\<lparr>p_id = ''p1'', p_name = ''Flea Drops'', p_description = None,
                      p_category_id = None, p_sku = ''MED-001'', p_price = 40,
                      p_cost = None, p_stock = Some 0, p_min_stock = Some 10,
                      p_unit = Some ''unit'', p_status = Some ''inactive'',
                      p_created_at = Some ''2024-01-01'', p_updated_at = Some ''2024-01-01''\<rparr>],
      db_orders = [\<lparr>o_id = ''o1'', o_order_number = ''ORD-2024-001'', o_customer_id = None,
                    o_total_amount = 10, o_discount = Some 0, o_tax = Some 0,
                    o_status = Some ''pending'', o_payment_status = Some ''unpaid'',
                    o_payment_method = None, o_notes = None,
                    o_created_at = Some ''2024-01-01'', o_updated_at = Some ''2024-01-01''\<rparr>],
      db_order_items = []\<rparr>)) \<and>
   upsert_seed_product \<lparr>env_now = ''2024-06-01'', env_uuid = (\<lambda>i. ''u9'')\<rparr> 0
     \<lparr>sp_name = ''Flea & Tick Prevention'',
      sp_description = ''Monthly flea and tick prevention treatment for dogs'',
      sp_category = ''Medications'', sp_sku = ''MED-001'', sp_price = 4599 / 100,
      sp_cost = 25, sp_stock = 50, sp_min_stock = 10, sp_status = ''active''\<rparr>
     \<lparr>db_customers = [],
      db_categories = [\<lparr>c_id = ''c1'', c_name = ''Medications'', c_description = None,
                        c_created_at = Some ''2024-01-01'', c_updated_at = Some ''2024-01-01''\<rparr>],
      db_products = [\<lparr>p_id = ''p1'', p_name = ''Flea Drops'', p_description = None,
                      p_category_id = None, p_sku = ''MED-001'', p_price = 40,
                      p_cost = None, p_stock = Some 0, p_min_stock = Some 10,
                      p_unit = Some ''unit'', p_status = Some ''inactive'',
                      p_created_at = Some ''2024-01-01'', p_updated_at = Some ''2024-01-01''\<rparr>],
      db_orders = [\<lparr>o_id = ''o1'', o_order_number = ''ORD-2024-001'', o_customer_id = None,
                    o_total_amount = 10, o_discount = Some 0, o_tax = Some 0,
                    o_status = Some ''pending'', o_payment_status = Some ''unpaid'',
                    o_payment_method = None, o_notes = None,
                    o_created_at = Some ''2024-01-01'', o_updated_at = Some ''2024-01-01''\<rparr>],
      db_order_items = []\<rparr>
     = Inr
     \<lparr>db_customers = [],
      db_categories = [\<lparr>c_id = ''c1'', c_name = ''Medications'', c_description = None,
                        c_created_at = Some ''2024-01-01'', c_updated_at = Some ''2024-01-01''\<rparr>],
      db_products = [\<lparr>p_id = ''p1'', p_name = ''Flea & Tick Prevention'',
                      p_description = Some ''Monthly flea and tick prevention treatment for dogs'',
                      p_category_id = Some ''c1'', p_sku = ''MED-001'', p_price = 4599 / 100,
                      p_cost = Some 25, p_stock = Some 50, p_min_stock = Some 10,
                      p_unit = Some ''unit'', p_status = Some ''active'',
                      p_created_at = Some ''2024-01-01'', p_updated_at = Some ''2024-06-01''\<rparr>],
      db_orders = [\<lparr>o_id = ''o1'', o_order_number = ''ORD-2024-001'', o_customer_id = None,
                    o_total_amount = 10, o_discount = Some 0, o_tax = Some 0,
                    o_status = Some ''pending'', o_payment_status = Some ''unpaid'',
                    o_payment_method = None, o_notes = None,
                    o_created_at = Some ''2024-01-01'', o_updated_at = Some ''2024-01-01''\<rparr>],
      db_order_items = []\<rparr>"
proof -
  have price: "\<lfloor>9199 / 2 :: rat\<rfloor> = 4599"
    by (rule floor_unique) simp_all
  have cost: "\<lfloor>5001 / 2 :: rat\<rfloor> = 2500"
    by (rule floor_unique) simp_all
  show ?thesis
    using duplicate_key_surfaces_error
    [where fd = "[(''name'', ''Medications''), (''description'', ''Again'')]"
       and n = "''Medications''"
       and p = "[(''name'', JString ''Flea Collar''), (''category_id'', JString ''c1''),
      (''sku'', JString ''MED-001''), (''price'', JNumber (Num (25 / 2)))]"
       and k = "''MED-001''"
       and pfd = "[(''name'', ''Flea Collar''), (''description'', []), (''category_id'', ''c1''),
      (''sku'', ''MED-001''), (''unit'', ''unit''), (''price'', ''12.50''), (''cost'', []),
      (''stock'', ''3''), (''min_stock'', ''1''), (''status'', ''active'')]"
       and pf = "(\<lambda>s. NaN)" and pint = "(\<lambda>s. NaN)"
       and ord = "[(''order_number'', JString ''ORD-2024-001''), (''total_amount'', JNumber (Num 20))]"
       and num = "''ORD-2024-001''"
       and v = "\<lparr>sp_name = ''Flea & Tick Prevention'',
      sp_description = ''Monthly flea and tick prevention treatment for dogs'',
      sp_category = ''Medications'', sp_sku = ''MED-001'', sp_price = 4599 / 100,
      sp_cost = 25, sp_stock = 50, sp_min_stock = 10, sp_status = ''active''\<rparr>"
       and i = 0
       and collate = "\<lambda>s. s"
       and env = "\<lparr>env_now = ''2024-06-01'', env_uuid = (\<lambda>i. ''u9'')\<rparr>"
       and db = "\<lparr>db_customers = [],
      db_categories = [\<lparr>c_id = ''c1'', c_name = ''Medications'', c_description = None,
                        c_created_at = Some ''2024-01-01'', c_updated_at = Some ''2024-01-01''\<rparr>],
      db_products = [\<lparr>p_id = ''p1'', p_name = ''Flea Drops'', p_description = None,
                      p_category_id = None, p_sku = ''MED-001'', p_price = 40,
                      p_cost = None, p_stock = Some 0, p_min_stock = Some 10,
                      p_unit = Some ''unit'', p_status = Some ''inactive'',
                      p_created_at = Some ''2024-01-01'', p_updated_at = Some ''2024-01-01''\<rparr>],
      db_orders = [\<lparr>o_id = ''o1'', o_order_number = ''ORD-2024-001'', o_customer_id = None,
                    o_total_amount = 10, o_discount = Some 0, o_tax = Some 0,
                    o_status = Some ''pending'', o_payment_status = Some ''unpaid'',
                    o_payment_method = None, o_notes = None,
                    o_created_at = Some ''2024-01-01'', o_updated_at = Some ''2024-01-01''\<rparr>],
      db_order_items = []\<rparr>"]
    by (simp add: formData_get_def product_statuses_def category_id_by_name_def price cost)
qed


end
